theory Spec2Isabelle
  imports Complex_Main "HOL-Library.AList"
begin

section \<open>Exceptions\<close>

text \<open>
  \<open>TokenExpiredError\<close> and \<open>NotBeforeError\<close> are subclasses of
  \<open>JsonWebTokenError\<close>; \<open>Error\<close>, \<open>SyntaxError\<close> and \<open>TypeError\<close> are not.
\<close>

datatype js_error =
    Error string
  | SyntaxError string
  | TypeError string
  | JsonWebTokenError string
  | NotBeforeError string
  | TokenExpiredError string

fun instanceof_TokenExpiredError :: "js_error \<Rightarrow> bool" where
  "instanceof_TokenExpiredError (TokenExpiredError m) = True"
| "instanceof_TokenExpiredError _ = False"

fun instanceof_JsonWebTokenError :: "js_error \<Rightarrow> bool" where
  "instanceof_JsonWebTokenError (JsonWebTokenError m) = True"
| "instanceof_JsonWebTokenError (NotBeforeError m) = True"
| "instanceof_JsonWebTokenError (TokenExpiredError m) = True"
| "instanceof_JsonWebTokenError _ = False"

section \<open>JavaScript values\<close>

text \<open>
  The payload of a token and the body of a request are JSON values, as \<open>JSON.parse\<close>
  delivers them. A number is a double: \<open>JNum n\<close> is an integral one (timestamps, stamp
  counts; integers are exact), \<open>JFrac q\<close> a finite one that is not integral, given by
  its value (where \<open>q\<close> is integral it is read as \<open>JNum\<close> would be), and
  \<open>JInf True\<close> and \<open>JInf False\<close> are \<open>Infinity\<close> and \<open>-Infinity\<close>, which
  \<open>JSON.parse\<close> returns for a literal such as \<open>1e999\<close>. A field that is absent reads
  as \<open>undefined\<close>, which is \<open>None\<close> here. A character of a string is a UTF-16 code
  unit below 256.
\<close>

datatype json =
    JNull
  | JBool bool
  | JNum int
  | JFrac rat
  | JInf bool
  | JStr string
  | JArr "json list"
  | JObj "(string \<times> json) list"

text \<open>Property access \<open>v.k\<close> for the keys read here: only an object has them.\<close>

fun get_prop :: "json \<Rightarrow> string \<Rightarrow> json option" where
  "get_prop (JObj kvs) k = map_of kvs k"
| "get_prop _ k = None"

text \<open>
  \<open>!v\<close> is true for \<open>undefined\<close>, \<open>null\<close>, \<open>false\<close>, \<open>0\<close> and the empty string;
  arrays and objects are truthy.
\<close>

fun truthy :: "json \<Rightarrow> bool" where
  "truthy JNull = False"
| "truthy (JBool b) = b"
| "truthy (JNum n) = (n \<noteq> 0)"
| "truthy (JFrac q) = (q \<noteq> 0)"
| "truthy (JInf b) = True"
| "truthy (JStr s) = (s \<noteq> [])"
| "truthy (JArr xs) = True"
| "truthy (JObj kvs) = True"

definition falsy :: "json option \<Rightarrow> bool" where
  "falsy v = (case v of None \<Rightarrow> True | Some j \<Rightarrow> \<not> truthy j)"

subsection \<open>Numbers\<close>

text \<open>
  The values of the type Number: \<open>NaN\<close>, the two infinities (\<open>Infinite True\<close> is the
  positive one) and the finite values. \<open>x < y\<close> is false as soon as one side is
  \<open>NaN\<close>.
\<close>

datatype number = NaN | Infinite bool | Finite rat

fun negate :: "number \<Rightarrow> number" where
  "negate NaN = NaN"
| "negate (Infinite b) = Infinite (\<not> b)"
| "negate (Finite q) = Finite (- q)"

fun number_less :: "number \<Rightarrow> number \<Rightarrow> bool" where
  "number_less (Finite p) (Finite q) = (p < q)"
| "number_less (Finite p) (Infinite b) = b"
| "number_less (Infinite a) (Finite q) = (\<not> a)"
| "number_less (Infinite a) (Infinite b) = (\<not> a \<and> b)"
| "number_less NaN y = False"
| "number_less x NaN = False"

text \<open>\<open>typeof v === 'number'\<close>, with the value.\<close>

fun json_number :: "json \<Rightarrow> number option" where
  "json_number (JNum n) = Some (Finite (of_int n))"
| "json_number (JFrac q) = Some (Finite q)"
| "json_number (JInf b) = Some (Infinite b)"
| "json_number _ = None"

text \<open>
  The double nearest to the positive rational \<open>p / q\<close>, ties to the even significand
  (IEEE 754 binary64: 53 bits, exponents from -1022, overflow to \<open>Infinity\<close>).
  \<open>k\<close> or \<open>k - 1\<close> is the binary exponent of \<open>p / q\<close>, \<open>2 ^ s\<close> the spacing of
  the doubles around it.
\<close>

fun bit_length :: "nat \<Rightarrow> nat" where
  "bit_length n = (if n = 0 then 0 else Suc (bit_length (n div 2)))"

declare bit_length.simps [simp del]

definition round_half_even :: "int \<Rightarrow> int \<Rightarrow> int" where
  "round_half_even a b =
     (let m = a div b; r = a mod b
      in if 2 * r < b then m else if b < 2 * r then m + 1 else if even m then m else m + 1)"

definition nearest_double :: "nat \<Rightarrow> nat \<Rightarrow> number" where
  "nearest_double p q =
     (let k = int (bit_length p) - int (bit_length q);
          e = (if (if 0 \<le> k then q * 2 ^ nat k \<le> p else q \<le> p * 2 ^ nat (- k)) then k else k - 1);
          s = max e (- 1022) - 52;
          m = (if 0 \<le> s then round_half_even (int p) (int q * 2 ^ nat s)
               else round_half_even (int p * 2 ^ nat (- s)) (int q))
      in if 0 \<le> s \<and> 2 ^ 1024 \<le> m * 2 ^ nat s then Infinite True
         else Finite (if 0 \<le> s then of_int (m * 2 ^ nat s) else of_int m / of_int (2 ^ nat (- s))))"

definition to_double :: "rat \<Rightarrow> number" where
  "to_double x =
     (if x = 0 then Finite 0
      else let (a, b) = quotient_of \<bar>x\<bar>;
               d = nearest_double (nat a) (nat b)
           in if x < 0 then negate d else d)"

subsection \<open>Strings as numbers\<close>

text \<open>
  Decimal integer literals: an optional sign and one or more digits (the regular
  expression \<open>^[-+]?[0-9]+$\<close>), read in base ten.
\<close>

definition is_digit :: "char \<Rightarrow> bool" where
  "is_digit c = (c \<in> set ''0123456789'')"

definition digit_val :: "char \<Rightarrow> int" where
  "digit_val c = int (of_char c) - 48"

definition digits_val :: "string \<Rightarrow> int" where
  "digits_val ds = foldl (\<lambda>acc c. 10 * acc + digit_val c) 0 ds"

definition parse_int :: "string \<Rightarrow> int option" where
  "parse_int s =
     (let (neg, ds) = (case s of
                         c # r \<Rightarrow> if c = CHR ''-'' then (True, r)
                                  else if c = CHR ''+'' then (False, r) else (False, s)
                       | [] \<Rightarrow> (False, s))
      in if ds \<noteq> [] \<and> list_all is_digit ds
         then Some (if neg then - digits_val ds else digits_val ds)
         else None)"

text \<open>
  \<open>ToNumber\<close> of a string (the grammar \<open>StringNumericLiteral\<close>). White space and
  line terminators around the literal are dropped (among the code units below 256:
  tab, line feed, vertical tab, form feed, carriage return, space, no-break space); an
  empty rest is 0. The literal is a hexadecimal, octal or binary integer with its
  prefix and without a sign, or an optionally signed \<open>Infinity\<close> or decimal literal:
  digits with an optional fraction, or a fraction alone, and an optional exponent.
  Its value is rounded to the nearest double. Anything else is \<open>NaN\<close>.
\<close>

definition is_space :: "char \<Rightarrow> bool" where
  "is_space c = (of_char c \<in> {9, 10, 11, 12, 13, 32, 160 :: nat})"

definition trim :: "string \<Rightarrow> string" where
  "trim s = rev (dropWhile is_space (rev (dropWhile is_space s)))"

definition radix_digit :: "char \<Rightarrow> nat option" where
  "radix_digit c =
     (let n = of_char c :: nat
      in if 48 \<le> n \<and> n \<le> 57 then Some (n - 48)
         else if 97 \<le> n \<and> n \<le> 102 then Some (n - 87)
         else if 65 \<le> n \<and> n \<le> 70 then Some (n - 55)
         else None)"

definition radix_value :: "nat \<Rightarrow> string \<Rightarrow> nat option" where
  "radix_value b ds =
     (if ds \<noteq> [] \<and> list_all (\<lambda>c. case radix_digit c of Some d \<Rightarrow> d < b | None \<Rightarrow> False) ds
      then Some (foldl (\<lambda>acc c. b * acc + (case radix_digit c of Some d \<Rightarrow> d | None \<Rightarrow> 0)) 0 ds)
      else None)"

definition parse_radix :: "string \<Rightarrow> nat option" where
  "parse_radix s =
     (case s of
        c0 # c1 # ds \<Rightarrow>
          if c0 \<noteq> CHR ''0'' then None
          else if c1 = CHR ''x'' \<or> c1 = CHR ''X'' then radix_value 16 ds
          else if c1 = CHR ''o'' \<or> c1 = CHR ''O'' then radix_value 8 ds
          else if c1 = CHR ''b'' \<or> c1 = CHR ''B'' then radix_value 2 ds
          else None
      | _ \<Rightarrow> None)"

definition parse_exponent :: "string \<Rightarrow> int option" where
  "parse_exponent r =
     (case r of
        [] \<Rightarrow> Some 0
      | c # ds \<Rightarrow> if c = CHR ''e'' \<or> c = CHR ''E'' then parse_int ds else None)"

text \<open>A decimal literal as its digits read as one integer and the power of ten to apply.\<close>

definition parse_decimal :: "string \<Rightarrow> (nat \<times> int) option" where
  "parse_decimal s =
     (let ip = takeWhile is_digit s;
          r1 = dropWhile is_digit s;
          (fp, r2) = (case r1 of
                        c # r \<Rightarrow> if c = CHR ''.'' then (takeWhile is_digit r, dropWhile is_digit r)
                                 else ([], r1)
                      | [] \<Rightarrow> ([], []))
      in if ip = [] \<and> fp = [] then None
         else case parse_exponent r2 of
                None \<Rightarrow> None
              | Some x \<Rightarrow> Some (nat (digits_val (ip @ fp)), x - int (length fp)))"

definition decimal_number :: "nat \<times> int \<Rightarrow> number" where
  "decimal_number dx =
     (case dx of (d, x) \<Rightarrow>
        if d = 0 then Finite 0
        else if 0 \<le> x then nearest_double (d * 10 ^ nat x) 1
        else nearest_double d (10 ^ nat (- x)))"

definition unsigned_number :: "string \<Rightarrow> number" where
  "unsigned_number s =
     (if s = ''Infinity'' then Infinite True
      else case parse_decimal s of None \<Rightarrow> NaN | Some dx \<Rightarrow> decimal_number dx)"

definition StringToNumber :: "string \<Rightarrow> number" where
  "StringToNumber s =
     (let t = trim s
      in case t of
           [] \<Rightarrow> Finite 0
         | c # r \<Rightarrow>
             (case parse_radix t of
                Some n \<Rightarrow> if n = 0 then Finite 0 else nearest_double n 1
              | None \<Rightarrow>
                  if c = CHR ''-'' then negate (unsigned_number r)
                  else if c = CHR ''+'' then unsigned_number r
                  else unsigned_number t))"

subsection \<open>Conversion to a number and comparison\<close>

text \<open>
  Converting an object to a primitive calls \<open>valueOf\<close>, which returns the object
  itself, and then \<open>toString\<close>. An object parsed from JSON inherits \<open>toString\<close>
  (\<open>[object Object]\<close>) unless it has a property of that name of its own, which is not
  a function: then the conversion throws a \<open>TypeError\<close>. An array is joined with
  commas, and so throws when one of its elements does.
\<close>

fun ToString_throws :: "json \<Rightarrow> bool" where
  "ToString_throws (JObj kvs) = (map_of kvs ''toString'' \<noteq> None)"
| "ToString_throws (JArr xs) = list_ex ToString_throws xs"
| "ToString_throws _ = False"

text \<open>
  The number read in the text of an array. The empty array is the empty string, which
  is 0; two or more elements give a text with a comma, which is \<open>NaN\<close>; a single
  element gives its own text, which is empty for \<open>null\<close> and reads back as the number
  itself for a number.
\<close>

fun text_number :: "json \<Rightarrow> number" where
  "text_number (JArr []) = Finite 0"
| "text_number (JArr [x]) = text_number x"
| "text_number (JArr (x # y # zs)) = NaN"
| "text_number JNull = Finite 0"
| "text_number (JBool b) = NaN"
| "text_number (JNum n) = Finite (of_int n)"
| "text_number (JFrac q) = Finite q"
| "text_number (JInf b) = Infinite b"
| "text_number (JStr s) = StringToNumber s"
| "text_number (JObj kvs) = NaN"

fun ToNumber :: "json \<Rightarrow> js_error + number" where
  "ToNumber JNull = Inr (Finite 0)"
| "ToNumber (JBool b) = Inr (Finite (if b then 1 else 0))"
| "ToNumber (JNum n) = Inr (Finite (of_int n))"
| "ToNumber (JFrac q) = Inr (Finite q)"
| "ToNumber (JInf b) = Inr (Infinite b)"
| "ToNumber (JStr s) = Inr (StringToNumber s)"
| "ToNumber (JArr xs) =
     (if ToString_throws (JArr xs)
      then Inl (TypeError ''Cannot convert object to primitive value'')
      else Inr (text_number (JArr xs)))"
| "ToNumber (JObj kvs) =
     (if ToString_throws (JObj kvs)
      then Inl (TypeError ''Cannot convert object to primitive value'')
      else Inr NaN)"

text \<open>\<open>v < n\<close> for an integer \<open>n\<close>.\<close>

definition js_less :: "json \<Rightarrow> int \<Rightarrow> js_error + bool" where
  "js_less v n =
     (case ToNumber v of
        Inl e \<Rightarrow> Inl e
      | Inr x \<Rightarrow> Inr (number_less x (Finite (of_int n))))"

text \<open>\<open>Number.prototype.toString(36)\<close> on an integer.\<close>

definition digits36 :: string where
  "digits36 = ''0123456789abcdefghijklmnopqrstuvwxyz''"

fun toString36_nat :: "nat \<Rightarrow> string" where
  "toString36_nat n =
     (if n < 36 then [digits36 ! n]
      else toString36_nat (n div 36) @ [digits36 ! (n mod 36)])"

declare toString36_nat.simps [simp del]

definition toString36 :: "int \<Rightarrow> string" where
  "toString36 i = (if i < 0 then CHR ''-'' # toString36_nat (nat (- i))
                   else toString36_nat (nat i))"

text \<open>\<open>s.substring(a, b)\<close> for \<open>a \<le> b\<close>; indices past the end are clamped.\<close>

definition substring :: "string \<Rightarrow> nat \<Rightarrow> nat \<Rightarrow> string" where
  "substring s a b = take (b - a) (drop a s)"

section \<open>The process: environment, clock, random source, console\<close>

text \<open>
  The functions of \<open>src/utils/auth.ts\<close> read \<open>process.env.JWT_SECRET\<close>, call
  \<open>Date.now()\<close> and \<open>Math.random()\<close>, and write to the console. The state they
  run in is passed explicitly. The clock holds the epoch milliseconds the next
  \<open>Date.now()\<close> returns and the milliseconds that pass after each successive read
  (when the list is used up no more time passes); it never runs backwards.
\<close>

record world =
  env_JWT_SECRET :: "string option"
  clock_ms :: int
  clock_ticks :: "nat list"
  random_pending :: "string list"
  console_log :: "string list"

definition Date_now :: "world \<Rightarrow> int \<times> world" where
  "Date_now w =
     (clock_ms w,
      w\<lparr>clock_ms := clock_ms w + int (case clock_ticks w of [] \<Rightarrow> 0 | d # _ \<Rightarrow> d),
        clock_ticks := tl (clock_ticks w)\<rparr>)"

text \<open>
  \<open>Math.random().toString(36)\<close>: the pending results are given as the strings they
  print to (\<open>0.\<close> followed by base-36 digits); a draw of exactly 0 prints \<open>0\<close>.
\<close>

definition Math_random_toString36 :: "world \<Rightarrow> string \<times> world" where
  "Math_random_toString36 w =
     (case random_pending w of
        [] \<Rightarrow> (''0'', w)
      | r # rs \<Rightarrow> (r, w\<lparr>random_pending := rs\<rparr>))"

definition console_error :: "string \<Rightarrow> world \<Rightarrow> world" where
  "console_error line w = w\<lparr>console_log := console_log w @ [line]\<rparr>"

text \<open>\<open>!secret\<close>: the variable is unset or empty.\<close>

definition secret_of :: "world \<Rightarrow> string option" where
  "secret_of w = (case env_JWT_SECRET w of
                    None \<Rightarrow> None
                  | Some s \<Rightarrow> if s = [] then None else Some s)"

section \<open>The jsonwebtoken library\<close>

text \<open>
  \<open>jwt.sign\<close>, \<open>jwt.verify\<close> and \<open>jwt.decode\<close> belong to the library
  \<open>jsonwebtoken\<close>, not to the repository. They are modelled symbolically, in the
  style of protocol verification: a token string is what the library reads in it, and
  HMAC is ideal (two signatures are equal only if algorithm, key and signed content
  are). The base64url and JSON serialisation is not modelled.

  \<^item> \<open>Malformed s\<close>: a string that is not three dot-separated segments with a
    JSON header (\<open>jwt.decode\<close> returns \<open>null\<close>); \<open>s = []\<close> is the empty string.
  \<^item> \<open>Undecodable s\<close>: a string with a header of type JWT whose payload segment
    is not JSON (\<open>jwt.decode\<close> throws a \<open>SyntaxError\<close>).
  \<^item> \<open>Compact alg payload sg\<close>: a header naming \<open>alg\<close>, a payload and a
    signature segment.
\<close>

datatype signature =
    Hmac string string json
  | Unsigned
  | OtherBytes string

datatype token =
    Malformed string
  | Undecodable string
  | Compact string json signature

definition HS_ALGS :: "string list" where
  "HS_ALGS = [''HS256'', ''HS384'', ''HS512'']"

definition jwt_decode :: "token \<Rightarrow> js_error + json option" where
  "jwt_decode tok =
     (case tok of
        Malformed s \<Rightarrow> Inr None
      | Undecodable s \<Rightarrow> Inl (SyntaxError ''Unexpected token in JSON'')
      | Compact alg payload sg \<Rightarrow> Inr (Some payload))"

text \<open>
  \<open>jwt.verify(token, secret)\<close> with no options, in the library's order: the clock
  is read first; then the shape of the string, the presence of a signature, the
  algorithm, the signature itself, \<open>nbf\<close>, and \<open>exp\<close>. Each of the two claims must
  be a number when it is present. A token is expired as soon as the clock in whole
  seconds has reached \<open>exp\<close> (\<open>clockTimestamp >= payload.exp\<close>).
\<close>

definition jwt_verify_at :: "token \<Rightarrow> string \<Rightarrow> int \<Rightarrow> js_error + json" where
  "jwt_verify_at tok secret clockTimestamp =
     (case tok of
        Malformed s \<Rightarrow>
          Inl (JsonWebTokenError (if s = [] then ''jwt must be provided'' else ''jwt malformed''))
      | Undecodable s \<Rightarrow> Inl (SyntaxError ''Unexpected token in JSON'')
      | Compact alg payload sg \<Rightarrow>
          if sg = Unsigned then Inl (JsonWebTokenError ''jwt signature is required'')
          else if alg \<notin> set HS_ALGS then Inl (JsonWebTokenError ''invalid algorithm'')
          else if sg \<noteq> Hmac alg secret payload then Inl (JsonWebTokenError ''invalid signature'')
          else if payload = JNull then Inl (TypeError ''Cannot read properties of null'')
          else
            (case (case get_prop payload ''nbf'' of
                     None \<Rightarrow> None
                   | Some v \<Rightarrow>
                       (case json_number v of
                          None \<Rightarrow> Some (JsonWebTokenError ''invalid nbf value'')
                        | Some nbf \<Rightarrow>
                            if number_less (Finite (of_int clockTimestamp)) nbf
                            then Some (NotBeforeError ''jwt not active'')
                            else None)) of
               Some e \<Rightarrow> Inl e
             | None \<Rightarrow>
                 (case get_prop payload ''exp'' of
                    None \<Rightarrow> Inr payload
                  | Some v \<Rightarrow>
                      (case json_number v of
                         None \<Rightarrow> Inl (JsonWebTokenError ''invalid exp value'')
                       | Some expiry \<Rightarrow>
                           if \<not> number_less (Finite (of_int clockTimestamp)) expiry
                           then Inl (TokenExpiredError ''jwt expired'')
                           else Inr payload))))"

definition jwt_verify :: "token \<Rightarrow> string \<Rightarrow> world \<Rightarrow> (js_error + json) \<times> world" where
  "jwt_verify tok secret w =
     (let (t, w1) = Date_now w in (jwt_verify_at tok secret (t div 1000), w1))"

text \<open>
  \<open>jwt.sign(payload, secret, options)\<close> for an object payload and the options the
  repository uses; \<open>expiresIn\<close> is given in seconds (\<open>'30s'\<close> is 30). The
  registered claims are written in the library's order: \<open>iat\<close>, \<open>exp\<close>,
  \<open>aud\<close>, \<open>iss\<close>. The clock is read only when the payload brings no \<open>iat\<close>
  (\<open>payload.iat || Math.floor(Date.now() / 1000)\<close>); \<open>exp\<close> is
  \<open>Math.floor(timestamp + seconds)\<close>. The payload is serialised with
  \<open>JSON.stringify\<close>, which writes an infinite number as \<open>null\<close>.
\<close>

record SignOptions =
  expiresIn :: "int option"
  issuer :: "string option"
  audience :: "string option"

definition number_or_absent :: "(string \<times> json) list \<Rightarrow> string \<Rightarrow> bool" where
  "number_or_absent payload k =
     (case map_of payload k of None \<Rightarrow> True | Some v \<Rightarrow> json_number v \<noteq> None)"

definition set_claim :: "string \<Rightarrow> json option \<Rightarrow> (string \<times> json) list \<Rightarrow> (string \<times> json) list" where
  "set_claim k v payload = (case v of None \<Rightarrow> payload | Some x \<Rightarrow> AList.update k x payload)"

fun floor_plus :: "json \<Rightarrow> int \<Rightarrow> json" where
  "floor_plus (JNum n) seconds = JNum (n + seconds)"
| "floor_plus (JFrac q) seconds =
     (case to_double (q + of_int seconds) of
        Finite r \<Rightarrow> JNum \<lfloor>r\<rfloor>
      | Infinite b \<Rightarrow> JInf b
      | NaN \<Rightarrow> JNull)"
| "floor_plus (JInf b) seconds = JInf b"
| "floor_plus v seconds = JNull"

fun stringified :: "json \<Rightarrow> json" where
  "stringified (JInf b) = JNull"
| "stringified (JArr xs) = JArr (map stringified xs)"
| "stringified (JObj kvs) = JObj (map (\<lambda>(k, v). (k, stringified v)) kvs)"
| "stringified v = v"

definition jwt_sign ::
  "(string \<times> json) list \<Rightarrow> string \<Rightarrow> SignOptions \<Rightarrow> world \<Rightarrow> (js_error + token) \<times> world" where
  "jwt_sign payload secret options w =
     (if secret = [] then (Inl (Error ''secretOrPrivateKey must have a value''), w)
      else if \<not> (number_or_absent payload ''iat'' \<and> number_or_absent payload ''exp''
                \<and> number_or_absent payload ''nbf'')
        then (Inl (Error ''registered claim should be a number of seconds''), w)
      else if map_of payload ''exp'' \<noteq> None \<and> expiresIn options \<noteq> None
        then (Inl (Error ''Bad options.expiresIn option the payload already has an exp property.''), w)
      else
        let (timestamp, w1) =
              (case map_of payload ''iat'' of
                 None \<Rightarrow> (let (t, w1) = Date_now w in (JNum (t div 1000), w1))
               | Some iat \<Rightarrow>
                   if truthy iat then (iat, w)
                   else (let (t, w1) = Date_now w in (JNum (t div 1000), w1)));
            p1 = AList.update ''iat'' timestamp payload;
            p2 = set_claim ''exp'' (map_option (floor_plus timestamp) (expiresIn options)) p1
        in if audience options \<noteq> None \<and> map_of p2 ''aud'' \<noteq> None
             then (Inl (Error ''Bad options.audience option. The payload already has an aud property.''), w1)
           else if issuer options \<noteq> None \<and> map_of p2 ''iss'' \<noteq> None
             then (Inl (Error ''Bad options.issuer option. The payload already has an iss property.''), w1)
           else
             let p3 = set_claim ''aud'' (map_option JStr (audience options)) p2;
                 p4 = set_claim ''iss'' (map_option JStr (issuer options)) p3;
                 claims = stringified (JObj p4)
             in (Inr (Compact ''HS256'' claims (Hmac ''HS256'' secret claims)), w1))"

section \<open>Token utilities (src/utils/auth.ts)\<close>

definition generateUniqueId :: "world \<Rightarrow> string \<times> world" where
  "generateUniqueId w =
     (let (t, w1) = Date_now w;
          timestamp = toString36 t;
          (r, w2) = Math_random_toString36 w1;
          randomStr = substring r 2 15
      in (timestamp @ ''-'' @ randomStr, w2))"

definition qr_sign_options :: SignOptions where
  "qr_sign_options =
     \<lparr>expiresIn = Some 30, issuer = Some ''go-out-loyalty'', audience = Some ''qr-scan''\<rparr>"

text \<open>The body of the \<open>try\<close> block of \<open>generateQrToken\<close>.\<close>

definition generateQrToken_try ::
  "world \<Rightarrow> string \<Rightarrow> int \<Rightarrow> (js_error + token) \<times> world" where
  "generateQrToken_try w businessId stampsValue =
     (let (qrId, w1) = generateUniqueId w;
          (t1, w2) = Date_now w1;
          expiresAt = t1 + 30 * 1000;
          (t2, w3) = Date_now w2;
          payload = [(''businessId'', JStr businessId),
                     (''stampsValue'', JNum stampsValue),
                     (''qrId'', JStr qrId),
                     (''type'', JStr ''qr''),
                     (''issuedAt'', JNum t2),
                     (''expiresAt'', JNum expiresAt)]
      in case secret_of w3 of
           None \<Rightarrow> (Inl (Error ''JWT_SECRET environment variable is not set''), w3)
         | Some secret \<Rightarrow> jwt_sign payload secret qr_sign_options w3)"

definition generateQrToken ::
  "world \<Rightarrow> string \<Rightarrow> int \<Rightarrow> (js_error + token) \<times> world" where
  "generateQrToken w businessId stampsValue =
     (case generateQrToken_try w businessId stampsValue of
        (Inr tok, w1) \<Rightarrow> (Inr tok, w1)
      | (Inl e, w1) \<Rightarrow>
          (Inl (Error ''Failed to generate QR token''),
           console_error ''QR token generation error'' w1))"

definition verifyToken_try :: "world \<Rightarrow> token \<Rightarrow> (js_error + json) \<times> world" where
  "verifyToken_try w tok =
     (case secret_of w of
        None \<Rightarrow> (Inl (Error ''JWT_SECRET environment variable is not set''), w)
      | Some secret \<Rightarrow> jwt_verify tok secret w)"

definition verifyToken :: "world \<Rightarrow> token \<Rightarrow> (js_error + json) \<times> world" where
  "verifyToken w tok =
     (case verifyToken_try w tok of
        (Inr decoded, w1) \<Rightarrow> (Inr decoded, w1)
      | (Inl e, w1) \<Rightarrow>
          if instanceof_TokenExpiredError e then (Inl (Error ''Token has expired''), w1)
          else if instanceof_JsonWebTokenError e then (Inl (Error ''Invalid token''), w1)
          else (Inl (Error ''Token verification failed''),
                console_error ''Token verification error'' w1))"

definition isTokenExpired_try :: "world \<Rightarrow> token \<Rightarrow> (js_error + bool) \<times> world" where
  "isTokenExpired_try w tok =
     (case jwt_decode tok of
        Inl e \<Rightarrow> (Inl e, w)
      | Inr decoded \<Rightarrow>
          (case decoded of
             None \<Rightarrow> (Inr True, w)
           | Some d \<Rightarrow>
               if \<not> truthy d \<or> falsy (get_prop d ''exp'') then (Inr True, w)
               else (case get_prop d ''exp'' of
                       None \<Rightarrow> (Inr True, w)
                     | Some expiry \<Rightarrow>
                         let (t, w1) = Date_now w;
                             currentTime = t div 1000
                         in (js_less expiry currentTime, w1))))"

definition isTokenExpired :: "world \<Rightarrow> token \<Rightarrow> bool \<times> world" where
  "isTokenExpired w tok =
     (case isTokenExpired_try w tok of
        (Inr b, w1) \<Rightarrow> (b, w1)
      | (Inl e, w1) \<Rightarrow> (True, w1))"

text \<open>The claim \<open>k\<close> a token carries, as \<open>jwt.decode\<close> shows it (no signature check).\<close>

definition claim :: "token \<Rightarrow> string \<Rightarrow> json option" where
  "claim tok k = (case jwt_decode tok of Inr (Some d) \<Rightarrow> get_prop d k | _ \<Rightarrow> None)"

section \<open>Request validation (src/utils/validation.ts)\<close>

text \<open>
  \<open>isInt(str, { min, max })\<close> of validator.js: the string is an optionally signed
  run of decimal digits (leading zeroes allowed) and its value lies in the range.
\<close>

definition isInt :: "string \<Rightarrow> int \<Rightarrow> int \<Rightarrow> bool" where
  "isInt str mn mx = (case parse_int str of None \<Rightarrow> False | Some n \<Rightarrow> mn \<le> n \<and> n \<le> mx)"

text \<open>
  \<open>isInt\<close> on the text of an array, which is the texts of its elements joined with
  commas: empty for the empty array, the text of the element for a single one (empty
  for \<open>null\<close>), and a text with a comma from two elements on. A number prints as its
  decimal literal (from \<open>1e21\<close> on, and when it is not integral, in a notation that
  fails the pattern), so for a number the test is the range test.
\<close>

fun joined_isInt :: "json \<Rightarrow> int \<Rightarrow> int \<Rightarrow> bool" where
  "joined_isInt (JArr []) mn mx = isInt [] mn mx"
| "joined_isInt (JArr [x]) mn mx = joined_isInt x mn mx"
| "joined_isInt (JArr (x # y # zs)) mn mx = False"
| "joined_isInt JNull mn mx = isInt [] mn mx"
| "joined_isInt (JBool b) mn mx = isInt (if b then ''true'' else ''false'') mn mx"
| "joined_isInt (JNum n) mn mx = (mn \<le> n \<and> n \<le> mx)"
| "joined_isInt (JFrac q) mn mx = (q = of_int \<lfloor>q\<rfloor> \<and> mn \<le> \<lfloor>q\<rfloor> \<and> \<lfloor>q\<rfloor> \<le> mx)"
| "joined_isInt (JInf b) mn mx = isInt (if b then ''Infinity'' else ''-Infinity'') mn mx"
| "joined_isInt (JStr s) mn mx = isInt s mn mx"
| "joined_isInt (JObj kvs) mn mx = isInt ''[object Object]'' mn mx"

text \<open>
  A standard validator of express-validator on one value: the value is converted with
  the library's \<open>toString\<close> and the text is given to \<open>isInt\<close>. \<open>null\<close> becomes the
  empty string, a boolean \<open>true\<close> or \<open>false\<close>, a string stays as it is, a number
  prints as above. An object becomes \<open>[object Object]\<close>, by its inherited
  \<open>toString\<close> or, when it has a truthy property of that name, by that of its
  prototype; when it has a falsy property of that name the library goes on to
  \<open>isNaN(value)\<close>, which throws. An array inside the field value is converted by its
  own \<open>toString\<close>.
\<close>

fun isInt_value :: "json \<Rightarrow> int \<Rightarrow> int \<Rightarrow> js_error + bool" where
  "isInt_value (JObj kvs) mn mx =
     (case map_of kvs ''toString'' of
        None \<Rightarrow> Inr (isInt ''[object Object]'' mn mx)
      | Some t \<Rightarrow>
          if truthy t then Inr (isInt ''[object Object]'' mn mx)
          else Inl (TypeError ''Cannot convert object to primitive value''))"
| "isInt_value (JArr xs) mn mx =
     (if ToString_throws (JArr xs)
      then Inl (TypeError ''Cannot convert object to primitive value'')
      else Inr (joined_isInt (JArr xs) mn mx))"
| "isInt_value v mn mx = Inr (joined_isInt v mn mx)"

text \<open>
  The validator runs on every element of a field value that is an array, and on the
  value itself otherwise (\<open>Array.isArray(value) ? value : [value]\<close>); each value it
  refuses adds an error. The result is the values refused, unless a conversion throws.
\<close>

fun refused :: "json list \<Rightarrow> int \<Rightarrow> int \<Rightarrow> js_error + json list" where
  "refused [] mn mx = Inr []"
| "refused (v # vs) mn mx =
     (case isInt_value v mn mx of
        Inl e \<Rightarrow> Inl e
      | Inr ok \<Rightarrow>
          (case refused vs mn mx of
             Inl e \<Rightarrow> Inl e
           | Inr bad \<Rightarrow> Inr (if ok then bad else v # bad)))"

text \<open>
  The request body as \<open>express.json\<close> or \<open>express.urlencoded\<close> left it, and an error
  as \<open>validationResult(req).array()\<close> lists it.
\<close>

record request =
  body :: json

record validation_error =
  err_type :: string
  err_path :: string
  err_msg :: string
  err_value :: json

text \<open>
  What a middleware does: it calls \<open>next()\<close>, it answers with a status and a JSON
  body, or (an exception in a validation chain) it calls \<open>next(err)\<close>.
\<close>

datatype response = Next | Respond nat json | NextError js_error

definition formattedError :: "validation_error \<Rightarrow> json" where
  "formattedError e =
     JObj ([(''field'', JStr (if err_type e = ''field'' then err_path e else ''unknown'')),
            (''message'', JStr (err_msg e))]
           @ (if err_type e = ''field'' then [(''value'', err_value e)] else []))"

definition handleValidationErrors :: "validation_error list \<Rightarrow> response" where
  "handleValidationErrors errors =
     (if errors \<noteq> [] then
        Respond 400
          (stringified
             (JObj [(''success'', JBool False),
                    (''error'', JStr ''Validation failed''),
                    (''details'', JArr (map formattedError errors))]))
      else Next)"

text \<open>
  \<open>body('stampsValue').optional().isInt({ min: 1, max: 10 }).withMessage(...)\<close>
  followed by \<open>handleValidationErrors\<close>. \<open>optional()\<close> skips the validator when the
  field is \<open>undefined\<close>.
\<close>

definition qrGenerationValidation :: "request \<Rightarrow> response" where
  "qrGenerationValidation req =
     (case get_prop (body req) ''stampsValue'' of
        None \<Rightarrow> handleValidationErrors []
      | Some given \<Rightarrow>
          (case refused (case given of JArr xs \<Rightarrow> xs | _ \<Rightarrow> [given]) 1 10 of
             Inl e \<Rightarrow> NextError e
           | Inr bad \<Rightarrow>
               handleValidationErrors
                 (map (\<lambda>v. \<lparr>err_type = ''field'', err_path = ''stampsValue'',
                             err_msg = ''Stamps value must be between 1 and 10'',
                             err_value = v\<rparr>) bad)))"

section \<open>The stored data (Prisma schema)\<close>

text \<open>
  The two tables of the schema the stamp flow writes. \<open>stamp_transactions\<close> has the
  column \<open>qrId\<close> declared \<open>@unique\<close>, so the table is a map from \<open>qrId\<close> to the rest
  of the row; \<open>customers\<close> is a map from the primary key \<open>id\<close>. The surrogate key of
  a stamp transaction and the profile columns of a customer are left out.
\<close>

record StampTransaction =
  st_createdAt :: int
  st_stampsAwarded :: int
  st_source :: string
  st_notes :: "string option"
  st_customerId :: string
  st_businessId :: string

record Customer =
  cu_totalStamps :: int
  cu_totalRewards :: int
  cu_totalVisits :: int
  cu_lastVisit :: "int option"
  cu_businessId :: string

record database =
  stamp_transactions :: "string \<rightharpoonup> StampTransaction"
  customers :: "string \<rightharpoonup> Customer"

section \<open>Redemption ledger and status query\<close>

text \<open>
  Modelled from the spec: the persistence collaborator of section 6 (a
  unique-constraint-enforced insert, an atomic update, a transaction), which is not
  among the source files. \<open>DuplicateKey\<close> is the generic signal of section 9; a
  \<open>store_fault\<close> says at which step, if any, the underlying store fails during a call.
\<close>

datatype persistence_signal = DuplicateKey | StoreFailure

text \<open>Modelled from the spec: the failure of the underlying store (section 7).\<close>

datatype store_fault = NoFault | FailOnInsert | FailOnUpdate

text \<open>Modelled from the spec: the unique-constraint-enforced insert of section 6.\<close>

definition insert_stamp_transaction ::
  "store_fault \<Rightarrow> string \<Rightarrow> StampTransaction \<Rightarrow> database \<Rightarrow> persistence_signal + database" where
  "insert_stamp_transaction fault qrId row d =
     (if fault = FailOnInsert then Inl StoreFailure
      else if stamp_transactions d qrId \<noteq> None then Inl DuplicateKey
      else Inr (d\<lparr>stamp_transactions := (stamp_transactions d)(qrId \<mapsto> row)\<rparr>))"

text \<open>
  Modelled from the spec: the balance update of section 4.3, step 4 (\<open>totalStamps\<close>
  plus \<open>stampsValue\<close>, \<open>totalVisits\<close> plus one, \<open>lastVisit = now\<close>); a customer
  that does not exist is a persistence failure.
\<close>

definition update_customer_balance ::
  "store_fault \<Rightarrow> string \<Rightarrow> int \<Rightarrow> int \<Rightarrow> database \<Rightarrow> persistence_signal + database" where
  "update_customer_balance fault customerId stamps now d =
     (if fault = FailOnUpdate then Inl StoreFailure
      else case customers d customerId of
             None \<Rightarrow> Inl StoreFailure
           | Some c \<Rightarrow>
               Inr (d\<lparr>customers := (customers d)(customerId \<mapsto>
                      c\<lparr>cu_totalStamps := cu_totalStamps c + stamps,
                        cu_totalVisits := cu_totalVisits c + 1,
                        cu_lastVisit := Some now\<rparr>)\<rparr>))"

text \<open>
  Modelled from the spec: the transaction abstraction of section 6. The steps run on
  the database they are given; when one fails the database is the one before the
  transaction (rollback).
\<close>

definition run_transaction ::
  "(database \<Rightarrow> persistence_signal + database) \<Rightarrow> database \<Rightarrow> (persistence_signal + unit) \<times> database" where
  "run_transaction steps d =
     (case steps d of Inl sig \<Rightarrow> (Inl sig, d) | Inr d1 \<Rightarrow> (Inr (), d1))"

text \<open>Modelled from the spec: the error taxonomy of section 7.\<close>

datatype core_error =
    ConfigurationError
  | InvalidToken
  | ExpiredToken
  | InvalidTokenType
  | AlreadyRedeemed
  | NotAuthorized
  | PersistenceError

text \<open>
  Modelled from the spec: how the errors \<open>verifyToken\<close> throws are named in section 7
  (\<open>Token has expired\<close> is \<open>ExpiredToken\<close>, \<open>Invalid token\<close> is \<open>InvalidToken\<close>;
  what is left is the failure without a usable secret).
\<close>

fun codec_error :: "js_error \<Rightarrow> core_error" where
  "codec_error (Error m) =
     (if m = ''Token has expired'' then ExpiredToken
      else if m = ''Invalid token'' then InvalidToken
      else ConfigurationError)"
| "codec_error _ = ConfigurationError"

text \<open>
  Modelled from the spec: steps 4 to 6 of section 4.3, the body of the transaction: the
  insert of the record keyed by \<open>qrId\<close>, then the update of the customer's balance.
\<close>

definition redeem_steps ::
  "store_fault \<Rightarrow> string \<Rightarrow> StampTransaction \<Rightarrow> string \<Rightarrow> int \<Rightarrow> int
     \<Rightarrow> database \<Rightarrow> persistence_signal + database" where
  "redeem_steps fault qrId row customerId stampsValue now d =
     (case insert_stamp_transaction fault qrId row d of
        Inl sig \<Rightarrow> Inl sig
      | Inr d1 \<Rightarrow> update_customer_balance fault customerId stampsValue now d1)"

text \<open>
  Modelled from the spec: \<open>redeem(tokenString, customerId)\<close> of section 4.3, whose
  controller is not among the source files. Step 1 decodes with \<open>verifyToken\<close>;
  step 2 checks the audience claim; step 3 reads the clock and re-checks
  \<open>now \<le> expiresAt\<close> (a token whose \<open>expiresAt\<close> is not an integral number fails this check);
  steps 4 to 6 run as one transaction, a duplicate key giving \<open>AlreadyRedeemed\<close> and
  any other failure \<open>PersistenceError\<close>. A verified token without the other claims
  of a stamp token is an invalid token. The result is the key and the record created.
\<close>

fun redeem ::
  "store_fault \<Rightarrow> world \<times> database \<Rightarrow> token \<Rightarrow> string
     \<Rightarrow> (core_error + string \<times> StampTransaction) \<times> world \<times> database" where
  "redeem fault (w, d) tok customerId =
     (case verifyToken w tok of
        (Inl e, w1) \<Rightarrow> (Inl (codec_error e), w1, d)
      | (Inr claims, w1) \<Rightarrow>
          if get_prop claims ''aud'' \<noteq> Some (JStr ''qr-scan'') then (Inl InvalidTokenType, w1, d)
          else
            let (now, w2) = Date_now w1 in
            (case get_prop claims ''expiresAt'' of
               Some (JNum expiresAt) \<Rightarrow>
                 if \<not> now \<le> expiresAt then (Inl ExpiredToken, w2, d)
                 else
                   (case (get_prop claims ''qrId'', get_prop claims ''businessId'',
                          get_prop claims ''stampsValue'') of
                      (Some (JStr qrId), Some (JStr businessId), Some (JNum stampsValue)) \<Rightarrow>
                        (let row = \<lparr>st_createdAt = now, st_stampsAwarded = stampsValue,
                                    st_source = ''qr_scan'', st_notes = None,
                                    st_customerId = customerId, st_businessId = businessId\<rparr>
                         in (case run_transaction
                                    (redeem_steps fault qrId row customerId stampsValue now) d of
                               (Inl DuplicateKey, d2) \<Rightarrow> (Inl AlreadyRedeemed, w2, d2)
                             | (Inl StoreFailure, d2) \<Rightarrow> (Inl PersistenceError, w2, d2)
                             | (Inr u, d2) \<Rightarrow> (Inr (qrId, row), w2, d2)))
                    | _ \<Rightarrow> (Inl InvalidToken, w2, d))
             | _ \<Rightarrow> (Inl ExpiredToken, w2, d)))"

declare redeem.simps [simp del]

text \<open>Modelled from the spec: the three answers of the status query (section 4.4).\<close>

datatype qr_status = Pending | Redeemed | Expired

text \<open>
  Modelled from the spec: \<open>checkStatus(businessId, redemptionId)\<close> of section 4.4,
  whose controller is not among the source files (its route is). A record of another
  business is \<open>NotAuthorized\<close>; without a record the answer is \<open>Expired\<close> once
  the clock is past the issue time the caller recalls plus 30 seconds, and \<open>Pending\<close>
  otherwise. The database is returned as it was received.
\<close>

definition checkStatus ::
  "database \<Rightarrow> string \<Rightarrow> string \<Rightarrow> int option \<Rightarrow> int \<Rightarrow> (core_error + qr_status) \<times> database" where
  "checkStatus d businessId qrId issuedAt now =
     (case stamp_transactions d qrId of
        Some r \<Rightarrow>
          if st_businessId r = businessId then (Inr Redeemed, d) else (Inl NotAuthorized, d)
      | None \<Rightarrow>
          (case issuedAt of
             Some t \<Rightarrow> if now > t + 30 * 1000 then (Inr Expired, d) else (Inr Pending, d)
           | None \<Rightarrow> (Inr Pending, d)))"

section \<open>Notions used in the statements\<close>

text \<open>The value the \<open>(n+1)\<close>-th call of \<open>Date.now()\<close> from state \<open>w\<close> returns.\<close>

fun clock_after :: "nat \<Rightarrow> world \<Rightarrow> int" where
  "clock_after 0 w = clock_ms w"
| "clock_after (Suc n) w = clock_after n (snd (Date_now w))"

text \<open>
  The payload of a stamp token after signing: the six fields \<open>generateQrToken\<close>
  writes, followed by the four registered claims \<open>jwt.sign\<close> adds.
\<close>

definition qr_claims :: "string \<Rightarrow> int \<Rightarrow> string \<Rightarrow> int \<Rightarrow> int \<Rightarrow> int \<Rightarrow> json" where
  "qr_claims businessId stampsValue qrId issuedAt expiresAt iat =
     JObj [(''businessId'', JStr businessId),
           (''stampsValue'', JNum stampsValue),
           (''qrId'', JStr qrId),
           (''type'', JStr ''qr''),
           (''issuedAt'', JNum issuedAt),
           (''expiresAt'', JNum expiresAt),
           (''iat'', JNum iat),
           (''exp'', JNum (iat + 30)),
           (''aud'', JStr ''qr-scan''),
           (''iss'', JStr ''go-out-loyalty'')]"

text \<open>
  The token \<open>generateQrToken\<close> returns from state \<open>w\<close> under a secret: the
  identifier uses the first clock reading, \<open>expiresAt\<close> the second, \<open>issuedAt\<close> the
  third and \<open>iat\<close> the fourth (lemma \<open>generateQrToken_issued\<close>).
\<close>

definition issued_token :: "world \<Rightarrow> string \<Rightarrow> string \<Rightarrow> int \<Rightarrow> token" where
  "issued_token w secret businessId stampsValue =
     (let claims = qr_claims businessId stampsValue (fst (generateUniqueId w))
                     (clock_after 2 w) (clock_after 1 w + 30000) (clock_after 3 w div 1000)
      in Compact ''HS256'' claims (Hmac ''HS256'' secret claims))"

text \<open>
  A redemption that starts in state \<open>w\<close> finds the token unexpired: the envelope
  \<open>exp\<close> at the clock reading of \<open>jwt.verify\<close>, the \<open>expiresAt\<close> claim at the
  reading that follows it.
\<close>

definition within_ttl :: "world \<Rightarrow> token \<Rightarrow> bool" where
  "within_ttl w tok =
     (case (claim tok ''exp'', claim tok ''expiresAt'') of
        (Some (JNum e), Some (JNum x)) \<Rightarrow> clock_ms w div 1000 < e \<and> clock_after 1 w \<le> x
      | _ \<Rightarrow> False)"

text \<open>The value inside an array of one element, of one element, and so on.\<close>

fun innermost :: "json \<Rightarrow> json" where
  "innermost (JArr [x]) = innermost x"
| "innermost v = v"

text \<open>
  A value that reads as an integer from 1 to 10: such a number, a string that is an
  optionally signed run of decimal digits with such a value, or one of the two inside
  arrays of one element.
\<close>

definition accepted :: "json \<Rightarrow> bool" where
  "accepted v =
     (case innermost v of
        JNum n \<Rightarrow> 1 \<le> n \<and> n \<le> 10
      | JFrac q \<Rightarrow> q = of_int \<lfloor>q\<rfloor> \<and> 1 \<le> \<lfloor>q\<rfloor> \<and> \<lfloor>q\<rfloor> \<le> 10
      | JStr s \<Rightarrow> (case parse_int s of None \<Rightarrow> False | Some n \<Rightarrow> 1 \<le> n \<and> n \<le> 10)
      | _ \<Rightarrow> False)"

section \<open>Example states\<close>

text \<open>
  A process with the secret \<open>k\<close> at 2024-10-27T03:33:20Z; one millisecond passes
  between the second and the third reading of the clock.
\<close>

definition w_ex :: world where
  "w_ex = \<lparr>env_JWT_SECRET = Some ''k'', clock_ms = 1730000000000, clock_ticks = [0, 1, 0, 5],
           random_pending = [''0.4fzyo82mvyr''], console_log = []\<rparr>"

text \<open>The token \<open>generateQrToken('biz_1', 3)\<close> returns in that state.\<close>

definition claims_ex :: json where
  "claims_ex =
     JObj [(''businessId'', JStr ''biz_1''),
           (''stampsValue'', JNum 3),
           (''qrId'', JStr ''m2r1bz7k-4fzyo82mvyr''),
           (''type'', JStr ''qr''),
           (''issuedAt'', JNum 1730000000001),
           (''expiresAt'', JNum 1730000030000),
           (''iat'', JNum 1730000000),
           (''exp'', JNum 1730000030),
           (''aud'', JStr ''qr-scan''),
           (''iss'', JStr ''go-out-loyalty'')]"

definition tok_ex :: token where
  "tok_ex = Compact ''HS256'' claims_ex (Hmac ''HS256'' ''k'' claims_ex)"

text \<open>The same process five seconds and thirty-one seconds after the issue.\<close>

definition w_soon :: world where
  "w_soon = \<lparr>env_JWT_SECRET = Some ''k'', clock_ms = 1730000005000, clock_ticks = [],
             random_pending = [], console_log = []\<rparr>"

definition w_late :: world where
  "w_late = \<lparr>env_JWT_SECRET = Some ''k'', clock_ms = 1730000031000, clock_ticks = [],
             random_pending = [], console_log = []\<rparr>"

text \<open>A process without the secret.\<close>

definition w_unset :: world where
  "w_unset = \<lparr>env_JWT_SECRET = None, clock_ms = 1730000000000, clock_ticks = [],
              random_pending = [], console_log = []\<rparr>"

text \<open>
  A database with one customer and no stamp transaction, and the database after that
  customer has redeemed the example token five seconds after the issue.
\<close>

definition d_ex :: database where
  "d_ex = \<lparr>stamp_transactions = Map.empty,
           customers = [''cust_9'' \<mapsto>
             \<lparr>cu_totalStamps = 4, cu_totalRewards = 0, cu_totalVisits = 2,
              cu_lastVisit = None, cu_businessId = ''biz_1''\<rparr>]\<rparr>"

definition row_ex :: StampTransaction where
  "row_ex = \<lparr>st_createdAt = 1730000005000, st_stampsAwarded = 3, st_source = ''qr_scan'',
             st_notes = None, st_customerId = ''cust_9'', st_businessId = ''biz_1''\<rparr>"

definition d_redeemed :: database where
  "d_redeemed = \<lparr>stamp_transactions = [''m2r1bz7k-4fzyo82mvyr'' \<mapsto> row_ex],
                 customers = [''cust_9'' \<mapsto>
                   \<lparr>cu_totalStamps = 7, cu_totalRewards = 0, cu_totalVisits = 3,
                    cu_lastVisit = Some 1730000005000, cu_businessId = ''biz_1''\<rparr>]\<rparr>"

text \<open>The example payload under a signature made with another key.\<close>

definition tok_forged :: token where
  "tok_forged = Compact ''HS256'' claims_ex (Hmac ''HS256'' ''other-key'' claims_ex)"

text \<open>The same process at the second the example token expires, thirty seconds after the issue.\<close>

definition w_edge :: world where
  "w_edge = \<lparr>env_JWT_SECRET = Some ''k'', clock_ms = 1730000030000, clock_ticks = [],
             random_pending = [], console_log = []\<rparr>"

text \<open>
  An unsigned token (algorithm \<open>none\<close>, empty signature segment) whose payload holds
  only the claim \<open>exp\<close>.
\<close>

definition exp_only :: "json \<Rightarrow> token" where
  "exp_only v = Compact ''none'' (JObj [(''exp'', v)]) Unsigned"

text \<open>
  A string with a header of type JWT and algorithm HS256 whose payload segment is
  the encoding of the text \<open>not json\<close>.
\<close>

definition tok_not_json :: token where
  "tok_not_json = Undecodable ''eyJhbGciOiJIUzI1NiIsInR5cCI6IkpXVCJ9.bm90IGpzb24.c2ln''"

text \<open>A request whose body holds only \<open>stampsValue\<close>.\<close>

definition req_stamps :: "json \<Rightarrow> request" where
  "req_stamps v = \<lparr>body = JObj [(''stampsValue'', v)]\<rparr>"

section \<open>Clock, environment and the issued token\<close>

lemma fst_Date_now: "fst (Date_now w) = clock_ms w" by (simp add: Date_now_def)

lemma Date_now_frame:
  "env_JWT_SECRET (snd (Date_now w)) = env_JWT_SECRET w"
  "console_log (snd (Date_now w)) = console_log w"
  "random_pending (snd (Date_now w)) = random_pending w"
  by (simp_all add: Date_now_def)

lemma Date_now_mono: "clock_ms w \<le> clock_ms (snd (Date_now w))"
  by (simp add: Date_now_def)

lemma secret_of_Date_now: "secret_of (snd (Date_now w)) = secret_of w"
  by (simp add: secret_of_def Date_now_def)

lemma random_frame:
  "env_JWT_SECRET (snd (Math_random_toString36 w)) = env_JWT_SECRET w"
  "console_log (snd (Math_random_toString36 w)) = console_log w"
  "clock_ms (snd (Math_random_toString36 w)) = clock_ms w"
  "clock_ticks (snd (Math_random_toString36 w)) = clock_ticks w"
  by (simp_all add: Math_random_toString36_def split: list.splits)

lemma secret_of_random: "secret_of (snd (Math_random_toString36 w)) = secret_of w"
  by (simp add: secret_of_def random_frame)

lemma Date_now_random:
  "clock_ms (snd (Date_now (snd (Math_random_toString36 w)))) = clock_ms (snd (Date_now w))"
  "clock_ticks (snd (Date_now (snd (Math_random_toString36 w)))) = clock_ticks (snd (Date_now w))"
  by (simp_all add: Date_now_def random_frame)

lemma clock_after_cong:
  "clock_ms w = clock_ms w' \<Longrightarrow> clock_ticks w = clock_ticks w' \<Longrightarrow> clock_after n w = clock_after n w'"
proof (induction n arbitrary: w w')
  case 0
  then show ?case by simp
next
  case (Suc n)
  have a: "clock_ms (snd (Date_now w)) = clock_ms (snd (Date_now w'))"
    unfolding Date_now_def by (simp add: Suc.prems)
  have b: "clock_ticks (snd (Date_now w)) = clock_ticks (snd (Date_now w'))"
    unfolding Date_now_def by (simp add: Suc.prems)
  show ?case unfolding clock_after.simps by (rule Suc.IH [OF a b])
qed

lemma clock_after_mono: "clock_after n w \<le> clock_after (Suc n) w"
proof (induction n arbitrary: w)
  case 0
  then show ?case by (simp add: Date_now_mono)
next
  case (Suc n)
  then show ?case by simp
qed

lemma generateUniqueId_frame:
  "secret_of (snd (generateUniqueId w)) = secret_of w"
  "console_log (snd (generateUniqueId w)) = console_log w"
  "env_JWT_SECRET (snd (generateUniqueId w)) = env_JWT_SECRET w"
  "clock_ms (snd (generateUniqueId w)) = clock_ms (snd (Date_now w))"
  "clock_ticks (snd (generateUniqueId w)) = clock_ticks (snd (Date_now w))"
  by (simp_all add: generateUniqueId_def split_beta Let_def secret_of_random secret_of_Date_now
      random_frame Date_now_frame)

lemma clock_after_generateUniqueId:
  "clock_after n (snd (generateUniqueId w)) = clock_after (Suc n) w"
  using clock_after_cong [OF generateUniqueId_frame(4) generateUniqueId_frame(5)] by simp

lemma jwt_sign_qr:
  assumes "secret \<noteq> []"
  shows "jwt_sign [(''businessId'', JStr b), (''stampsValue'', JNum v), (''qrId'', JStr q),
                   (''type'', JStr ''qr''), (''issuedAt'', JNum i), (''expiresAt'', JNum x)]
           secret qr_sign_options w
         = (let c = qr_claims b v q i x (clock_ms w div 1000)
            in (Inr (Compact ''HS256'' c (Hmac ''HS256'' secret c)), snd (Date_now w)))"
  using assms
  by (simp add: jwt_sign_def qr_sign_options_def number_or_absent_def set_claim_def
      qr_claims_def Let_def split_beta fst_Date_now falsy_def)

lemma generateQrToken_try_issued:
  assumes "secret_of w = Some secret"
  shows "fst (generateQrToken_try w b v) = Inr (issued_token w secret b v)"
proof -
  have ne: "secret \<noteq> []" using assms by (auto simp: secret_of_def split: option.splits if_splits)
  let ?w1 = "snd (generateUniqueId w)"
  let ?w2 = "snd (Date_now ?w1)"
  let ?w3 = "snd (Date_now ?w2)"
  have s3: "secret_of ?w3 = Some secret"
    using assms by (simp add: secret_of_Date_now generateUniqueId_frame)
  have c1: "clock_ms ?w1 = clock_after 1 w" using clock_after_generateUniqueId [of 0 w] by simp
  have c2: "clock_ms ?w2 = clock_after 2 w"
    using clock_after_generateUniqueId [of 1 w] by (simp add: eval_nat_numeral)
  have c3: "clock_ms ?w3 = clock_after 3 w"
    using clock_after_generateUniqueId [of 2 w] by (simp add: eval_nat_numeral)
  show ?thesis
    using s3 c1 c2 c3
    by (simp add: generateQrToken_try_def split_beta Let_def fst_Date_now jwt_sign_qr [OF ne]
        issued_token_def)
qed

lemma generateQrToken_issued:
  assumes "secret_of w = Some secret"
  shows "fst (generateQrToken w b v) = Inr (issued_token w secret b v)"
  using generateQrToken_try_issued [OF assms, of b v]
  by (auto simp: generateQrToken_def split: prod.splits sum.splits)

lemma generateQrToken_failed:
  assumes "secret_of w = None"
  shows "fst (generateQrToken w b v) = Inl (Error ''Failed to generate QR token'')"
proof -
  have "secret_of (snd (Date_now (snd (Date_now (snd (generateUniqueId w)))))) = None"
    using assms by (simp add: secret_of_Date_now generateUniqueId_frame)
  then have "fst (generateQrToken_try w b v) = Inl (Error ''JWT_SECRET environment variable is not set'')"
    by (simp add: generateQrToken_try_def split_beta Let_def)
  then show ?thesis
    by (auto simp: generateQrToken_def split: prod.splits sum.splits)
qed


lemma verifyToken_no_secret:
  assumes "secret_of w = None"
  shows "fst (verifyToken w tok) = Inl (Error ''Token verification failed'')"
proof -
  have "fst (verifyToken_try w tok) = Inl (Error ''JWT_SECRET environment variable is not set'')"
    using assms by (simp add: verifyToken_try_def)
  then show ?thesis
    by (auto simp: verifyToken_def split: prod.splits sum.splits)
qed

lemma js_less_number:
  "json_number e = Some x \<Longrightarrow> js_less e n = Inr (number_less x (Finite (of_int n)))"
  by (cases e) (simp_all add: js_less_def)

lemma js_less_throws:
  "ToString_throws e \<Longrightarrow> js_less e n = Inl (TypeError ''Cannot convert object to primitive value'')"
  by (cases e) (simp_all add: js_less_def)

lemmas eval_number_defs =
  StringToNumber_def trim_def is_space_def parse_radix_def radix_value_def radix_digit_def
  unsigned_number_def parse_decimal_def parse_exponent_def parse_int_def decimal_number_def
  nearest_double_def round_half_even_def bit_length.simps is_digit_def digits_val_def
  digit_val_def Let_def

lemma StringToNumber_ex:
  "StringToNumber '' 5 '' = Finite 5"
  "StringToNumber ''1e3'' = Finite 1000"
  "StringToNumber ''0x10'' = Finite 16"
  "StringToNumber ''1730000030.5'' = Finite (3460000061 / 2)"
  "StringToNumber ''soon'' = NaN"
  by (simp_all add: eval_number_defs)


section \<open>Validation and the transaction\<close>

lemma parse_int_not_literal:
  "parse_int [] = None" "parse_int ''true'' = None" "parse_int ''false'' = None"
  "parse_int ''[object Object]'' = None" "parse_int ''Infinity'' = None"
  "parse_int ''-Infinity'' = None"
  by (simp_all add: parse_int_def is_digit_def)

lemma joined_isInt_accepted: "joined_isInt v 1 10 = accepted v"
  by (induction v rule: innermost.induct) (simp_all add: accepted_def isInt_def parse_int_not_literal)

lemma throws_not_accepted: "ToString_throws v \<Longrightarrow> \<not> accepted v"
  by (induction v rule: innermost.induct) (simp_all add: accepted_def)

lemma isInt_value_accepted: "(isInt_value v 1 10 = Inr True) = accepted v"
proof (cases v)
  case (JObj kvs)
  then show ?thesis
    by (simp add: accepted_def isInt_def parse_int_not_literal split: option.splits)
next
  case (JArr xs)
  then show ?thesis
    using joined_isInt_accepted [of v] throws_not_accepted [of v] by auto
qed (simp_all add: joined_isInt_accepted [symmetric])

lemma isInt_value_Inl:
  "isInt_value v mn mx = Inl e \<Longrightarrow> e = TypeError ''Cannot convert object to primitive value''"
  by (cases v) (auto split: option.splits if_splits)

lemma refused_accepted: "(refused vs 1 10 = Inr []) = list_all accepted vs"
  by (induction vs) (auto simp: isInt_value_accepted [symmetric] split: sum.splits)

lemma refused_Inl:
  "refused vs mn mx = Inl e \<Longrightarrow> e = TypeError ''Cannot convert object to primitive value''"
  by (induction vs) (auto dest: isInt_value_Inl split: sum.splits)

lemma handleValidationErrors_Next: "(handleValidationErrors errors = Next) = (errors = [])"
  by (simp add: handleValidationErrors_def)

lemma run_transaction_cases:
  "run_transaction steps d = (Inl sig, d1) \<Longrightarrow> d1 = d"
  by (auto simp: run_transaction_def split: sum.splits)

lemma redeem_steps_Inr:
  "redeem_steps fault q row c v now d = Inr d1 \<Longrightarrow>
     stamp_transactions d q = None \<and>
     (\<exists>cu. customers d c = Some cu \<and>
        d1 = d\<lparr>stamp_transactions := (stamp_transactions d)(q \<mapsto> row),
               customers := (customers d)(c \<mapsto> cu\<lparr>cu_totalStamps := cu_totalStamps cu + v,
                                                  cu_totalVisits := cu_totalVisits cu + 1,
                                                  cu_lastVisit := Some now\<rparr>)\<rparr>)"
  by (auto simp: redeem_steps_def insert_stamp_transaction_def update_customer_balance_def
      split: if_splits sum.splits option.splits)


section \<open>Verification of a token\<close>

lemma verifyToken_secret:
  assumes "secret_of w = Some secret"
  shows "fst (verifyToken w tok) =
           (case jwt_verify_at tok secret (clock_ms w div 1000) of
              Inr p \<Rightarrow> Inr p
            | Inl e \<Rightarrow>
                Inl (Error (if instanceof_TokenExpiredError e then ''Token has expired''
                            else if instanceof_JsonWebTokenError e then ''Invalid token''
                            else ''Token verification failed'')))"
    and "clock_ms (snd (verifyToken w tok)) = clock_after 1 w"
    and "clock_ticks (snd (verifyToken w tok)) = clock_ticks (snd (Date_now w))"
    and "secret_of (snd (verifyToken w tok)) = Some secret"
  using assms
  by (auto simp: verifyToken_def verifyToken_try_def jwt_verify_def split_beta fst_Date_now
      console_error_def secret_of_def Date_now_def
      split: sum.splits prod.splits option.splits if_splits)

lemma verifyToken_frame:
  "clock_ms w \<le> clock_ms (snd (verifyToken w tok))"
  by (auto simp: verifyToken_def verifyToken_try_def jwt_verify_def split_beta
      console_error_def Date_now_def
      split: sum.splits prod.splits option.splits if_splits)

lemma jwt_verify_at_qr:
  "jwt_verify_at (Compact ''HS256'' (qr_claims b v q i x iat)
                    (Hmac ''HS256'' secret (qr_claims b v q i x iat))) secret t =
     (if iat + 30 \<le> t then Inl (TokenExpiredError ''jwt expired'')
      else Inr (qr_claims b v q i x iat))"
  by (simp add: jwt_verify_at_def qr_claims_def HS_ALGS_def)

lemma jwt_verify_at_Inr:
  "jwt_verify_at tok secret t = Inr p \<Longrightarrow> \<exists>alg. tok = Compact alg p (Hmac alg secret p)"
  by (auto simp: jwt_verify_at_def split: token.splits if_splits option.splits)

lemma json_number_cases:
  "json_number v = Some x \<Longrightarrow>
     (\<exists>n. v = JNum n \<and> x = Finite (of_int n)) \<or> (\<exists>q. v = JFrac q \<and> x = Finite q)
     \<or> (\<exists>b. v = JInf b \<and> x = Infinite b)"
  by (cases v) simp_all

lemma jwt_verify_at_expired:
  "jwt_verify_at tok secret t = Inl (TokenExpiredError m) \<Longrightarrow>
     \<exists>alg p v. tok = Compact alg p (Hmac alg secret p) \<and> get_prop p ''exp'' = Some v
       \<and> ((\<exists>e. v = JNum e \<and> e \<le> t) \<or> (\<exists>q. v = JFrac q \<and> q \<le> of_int t) \<or> v = JInf False)"
  by (auto simp: jwt_verify_at_def split: token.splits if_splits option.splits
      dest!: json_number_cases)

lemma issue_then_verify:
  assumes "secret_of w = Some secret" and "secret_of w' = Some secret"
  shows "fst (verifyToken w' (issued_token w secret b v)) =
           (if clock_after 3 w div 1000 + 30 \<le> clock_ms w' div 1000
            then Inl (Error ''Token has expired'')
            else Inr (qr_claims b v (fst (generateUniqueId w)) (clock_after 2 w)
                        (clock_after 1 w + 30000) (clock_after 3 w div 1000)))"
  by (simp add: verifyToken_secret(1) [OF assms(2)] issued_token_def Let_def jwt_verify_at_qr)


section \<open>Redemption\<close>

lemma generateQrToken_Inr:
  assumes "fst (generateQrToken w b v) = Inr tok"
  shows "\<exists>secret. secret_of w = Some secret \<and> tok = issued_token w secret b v"
proof (cases "secret_of w")
  case None
  then show ?thesis using assms generateQrToken_failed [OF None, of b v] by simp
next
  case (Some secret)
  then show ?thesis using assms generateQrToken_issued [OF Some, of b v] by simp
qed

lemma verifyToken_Inr:
  assumes "fst (verifyToken w tok) = Inr claims"
  shows "\<exists>alg secret. secret_of w = Some secret \<and> tok = Compact alg claims (Hmac alg secret claims)"
proof (cases "secret_of w")
  case None
  then show ?thesis using assms verifyToken_no_secret [OF None, of tok] by simp
next
  case (Some secret)
  have "jwt_verify_at tok secret (clock_ms w div 1000) = Inr claims"
    using assms verifyToken_secret(1) [OF Some, of tok] by (auto split: sum.splits)
  then show ?thesis using Some jwt_verify_at_Inr by blast
qed

lemma claim_Compact: "claim (Compact alg p sg) k = get_prop p k"
  by (simp add: claim_def jwt_decode_def)

lemma redeem_result:
  assumes "redeem fault (w, d) tok c = (res, w2, d2)"
  shows "(isl res \<and> d2 = d) \<or>
         (\<exists>qrId row cu claims.
            res = Inr (qrId, row)
          \<and> fst (verifyToken w tok) = Inr claims
          \<and> get_prop claims ''qrId'' = Some (JStr qrId)
          \<and> get_prop claims ''businessId'' = Some (JStr (st_businessId row))
          \<and> get_prop claims ''stampsValue'' = Some (JNum (st_stampsAwarded row))
          \<and> st_customerId row = c
          \<and> stamp_transactions d qrId = None
          \<and> customers d c = Some cu
          \<and> d2 = d\<lparr>stamp_transactions := (stamp_transactions d)(qrId \<mapsto> row),
                    customers := (customers d)(c \<mapsto>
                      cu\<lparr>cu_totalStamps := cu_totalStamps cu + st_stampsAwarded row,
                         cu_totalVisits := cu_totalVisits cu + 1,
                         cu_lastVisit := Some (st_createdAt row)\<rparr>)\<rparr>)"
  using assms
  apply (simp add: redeem.simps Let_def split_beta run_transaction_def
         split: prod.splits sum.splits if_splits option.splits json.splits persistence_signal.splits)
  apply (auto dest!: redeem_steps_Inr)
  done

lemma redeem_consumed:
  assumes "claim tok ''qrId'' = Some (JStr qrId)" and "stamp_transactions d qrId \<noteq> None"
  shows "isl (fst (redeem fault (w, d) tok c)) \<and> snd (snd (redeem fault (w, d) tok c)) = d"
proof -
  obtain res w2 d2 where r: "redeem fault (w, d) tok c = (res, w2, d2)"
    by (cases "redeem fault (w, d) tok c") auto
  from redeem_result [OF r] show ?thesis
  proof
    assume "isl res \<and> d2 = d"
    then show ?thesis by (simp add: r)
  next
    assume "\<exists>q row cu claims.
            res = Inr (q, row)
          \<and> fst (verifyToken w tok) = Inr claims
          \<and> get_prop claims ''qrId'' = Some (JStr q)
          \<and> get_prop claims ''businessId'' = Some (JStr (st_businessId row))
          \<and> get_prop claims ''stampsValue'' = Some (JNum (st_stampsAwarded row))
          \<and> st_customerId row = c
          \<and> stamp_transactions d q = None
          \<and> customers d c = Some cu
          \<and> d2 = d\<lparr>stamp_transactions := (stamp_transactions d)(q \<mapsto> row),
                    customers := (customers d)(c \<mapsto>
                      cu\<lparr>cu_totalStamps := cu_totalStamps cu + st_stampsAwarded row,
                         cu_totalVisits := cu_totalVisits cu + 1,
                         cu_lastVisit := Some (st_createdAt row)\<rparr>)\<rparr>"
    then obtain q claims where v: "fst (verifyToken w tok) = Inr claims"
      and q: "get_prop claims ''qrId'' = Some (JStr q)" and free: "stamp_transactions d q = None"
      by blast
    from verifyToken_Inr [OF v] obtain alg secret where "tok = Compact alg claims (Hmac alg secret claims)"
      by blast
    then have "claim tok ''qrId'' = Some (JStr q)" using q by (simp add: claim_Compact)
    then have "q = qrId" using assms(1) by simp
    then show ?thesis using free assms(2) by simp
  qed
qed

lemma redeem_issued:
  assumes "secret_of w' = Some secret"
  shows "fst (redeem fault (w', d) (issued_token w secret b v) c) =
     (if clock_after 3 w div 1000 + 30 \<le> clock_ms w' div 1000
         \<or> clock_after 1 w + 30000 < clock_after 1 w'
      then Inl ExpiredToken
      else (case redeem_steps fault (fst (generateUniqueId w))
                   \<lparr>st_createdAt = clock_after 1 w', st_stampsAwarded = v,
                    st_source = ''qr_scan'', st_notes = None,
                    st_customerId = c, st_businessId = b\<rparr> c v (clock_after 1 w') d of
              Inl DuplicateKey \<Rightarrow> Inl AlreadyRedeemed
            | Inl StoreFailure \<Rightarrow> Inl PersistenceError
            | Inr d1 \<Rightarrow>
                Inr (fst (generateUniqueId w),
                     \<lparr>st_createdAt = clock_after 1 w', st_stampsAwarded = v,
                      st_source = ''qr_scan'', st_notes = None,
                      st_customerId = c, st_businessId = b\<rparr>)))"
proof -
  obtain r w1 where vt: "verifyToken w' (issued_token w secret b v) = (r, w1)"
    by (cases "verifyToken w' (issued_token w secret b v)") auto
  have r: "r = (if clock_after 3 w div 1000 + 30 \<le> clock_ms w' div 1000
            then Inl (Error ''Token has expired'')
            else Inr (qr_claims b v (fst (generateUniqueId w)) (clock_after 2 w)
                        (clock_after 1 w + 30000) (clock_after 3 w div 1000)))"
    using verifyToken_secret(1) [OF assms, of "issued_token w secret b v"] vt
    by (simp add: issued_token_def Let_def jwt_verify_at_qr)
  have c1: "clock_ms w1 = clock_after 1 w'"
    using verifyToken_secret(2) [OF assms, of "issued_token w secret b v"] vt by simp
  show ?thesis
    by (simp add: redeem.simps vt r c1 qr_claims_def split_beta fst_Date_now Let_def run_transaction_def
        split: sum.splits persistence_signal.splits)
qed

lemma claim_issued:
  "claim (issued_token w secret b v) ''qrId'' = Some (JStr (fst (generateUniqueId w)))"
  "claim (issued_token w secret b v) ''exp'' = Some (JNum (clock_after 3 w div 1000 + 30))"
  "claim (issued_token w secret b v) ''expiresAt'' = Some (JNum (clock_after 1 w + 30000))"
  "claim (issued_token w secret b v) ''issuedAt'' = Some (JNum (clock_after 2 w))"
  "claim (issued_token w secret b v) ''businessId'' = Some (JStr b)"
  "claim (issued_token w secret b v) ''stampsValue'' = Some (JNum v)"
  by (simp_all add: issued_token_def Let_def claim_Compact qr_claims_def)

lemma within_ttl_issued:
  "within_ttl w' (issued_token w secret b v) =
     (clock_ms w' div 1000 < clock_after 3 w div 1000 + 30
      \<and> clock_after 1 w' \<le> clock_after 1 w + 30000)"
  by (simp add: within_ttl_def claim_issued)

lemma redeem_steps_fresh:
  assumes "stamp_transactions d q = None" and "customers d c = Some cu"
  shows "\<exists>d1. redeem_steps NoFault q row c v now d = Inr d1"
  using assms
  by (simp add: redeem_steps_def insert_stamp_transaction_def update_customer_balance_def)

lemma redeem_steps_duplicate:
  assumes "stamp_transactions d q \<noteq> None"
  shows "redeem_steps NoFault q row c v now d = Inl DuplicateKey"
  using assms
  by (auto simp: redeem_steps_def insert_stamp_transaction_def)


section \<open>The examples evaluated\<close>

lemmas eval_token_defs =
  generateQrToken_def generateQrToken_try_def generateUniqueId_def
  Date_now_def Math_random_toString36_def secret_of_def jwt_sign_def qr_sign_options_def
  number_or_absent_def set_claim_def toString36_def toString36_nat.simps digits36_def
  substring_def console_error_def Let_def
  verifyToken_def verifyToken_try_def jwt_verify_def jwt_verify_at_def HS_ALGS_def

lemmas eval_redeem_defs =
  redeem.simps run_transaction_def redeem_steps_def insert_stamp_transaction_def
  update_customer_balance_def

lemmas example_defs =
  w_ex_def w_soon_def w_edge_def w_late_def w_unset_def tok_ex_def tok_forged_def claims_ex_def
  d_ex_def d_redeemed_def row_ex_def

lemma generateQrToken_ex: "fst (generateQrToken w_ex ''biz_1'' 3) = Inr tok_ex"
  by (simp add: eval_token_defs example_defs)

lemma verifyToken_ex_soon: "fst (verifyToken w_soon tok_ex) = Inr claims_ex"
  by (simp add: eval_token_defs example_defs)

lemma redeem_ex_first:
  "redeem NoFault (w_soon, d_ex) tok_ex ''cust_9'' =
     (Inr (''m2r1bz7k-4fzyo82mvyr'', row_ex), w_soon, d_redeemed)"
  by (simp add: eval_token_defs eval_redeem_defs example_defs)

lemma redeem_ex_replay:
  "fst (redeem NoFault (w_soon, d_redeemed) tok_ex ''cust_9'') = Inl AlreadyRedeemed"
  by (simp add: eval_token_defs eval_redeem_defs example_defs)

lemma redeem_ex_late:
  "fst (redeem NoFault (w_late, d_redeemed) tok_ex ''cust_9'') = Inl ExpiredToken"
  by (simp add: eval_token_defs eval_redeem_defs example_defs)

lemma redeem_ex_fault:
  "fst (redeem FailOnUpdate (w_soon, d_ex) tok_ex ''cust_9'') = Inl PersistenceError"
  by (simp add: eval_token_defs eval_redeem_defs example_defs)

lemma within_ttl_ex: "within_ttl w_soon tok_ex" "\<not> within_ttl w_late tok_ex"
  by (simp_all add: within_ttl_def claim_def jwt_decode_def Date_now_def eval_nat_numeral example_defs)


section \<open>Dependence of the issued token on clock and random source\<close>

lemma clock_after_take:
  "clock_ms w = clock_ms w' \<Longrightarrow> take n (clock_ticks w) = take n (clock_ticks w')
     \<Longrightarrow> clock_after n w = clock_after n w'"
proof (induction n arbitrary: w w')
  case 0
  then show ?case by simp
next
  case (Suc n)
  have a: "clock_ms (snd (Date_now w)) = clock_ms (snd (Date_now w'))"
    using Suc.prems unfolding Date_now_def
    by (cases "clock_ticks w"; cases "clock_ticks w'") simp_all
  have b: "take n (clock_ticks (snd (Date_now w))) = take n (clock_ticks (snd (Date_now w')))"
    using Suc.prems(2) unfolding Date_now_def
    by (cases "clock_ticks w"; cases "clock_ticks w'") simp_all
  show ?case unfolding clock_after.simps by (rule Suc.IH [OF a b])
qed

lemma clock_after_le:
  "m \<le> n \<Longrightarrow> clock_ms w = clock_ms w' \<Longrightarrow> take n (clock_ticks w) = take n (clock_ticks w')
     \<Longrightarrow> clock_after m w = clock_after m w'"
proof -
  assume mn: "m \<le> n" and c: "clock_ms w = clock_ms w'"
    and t: "take n (clock_ticks w) = take n (clock_ticks w')"
  have "take m (take n (clock_ticks w)) = take m (take n (clock_ticks w'))" using t by simp
  then have "take m (clock_ticks w) = take m (clock_ticks w')" using mn by (simp add: min_def)
  then show ?thesis using c by (rule clock_after_take [rotated])
qed

lemma generateUniqueId_fst:
  "fst (generateUniqueId w) =
     toString36 (clock_ms w) @ ''-'' @ substring (fst (Math_random_toString36 (snd (Date_now w)))) 2 15"
  by (simp add: generateUniqueId_def split_beta Let_def fst_Date_now)

lemma random_fst_take:
  "take 1 (random_pending w) = take 1 (random_pending w') \<Longrightarrow>
     fst (Math_random_toString36 (snd (Date_now w))) = fst (Math_random_toString36 (snd (Date_now w')))"
  by (cases "random_pending w"; cases "random_pending w'")
     (simp_all add: Math_random_toString36_def Date_now_def)

lemma generateQrToken_success_frame:
  assumes "secret_of w = Some secret"
  shows "env_JWT_SECRET (snd (generateQrToken w b v)) = env_JWT_SECRET w
       \<and> console_log (snd (generateQrToken w b v)) = console_log w"
proof -
  have ne: "secret \<noteq> []" using assms by (auto simp: secret_of_def split: option.splits if_splits)
  let ?w3 = "snd (Date_now (snd (Date_now (snd (generateUniqueId w)))))"
  have s3: "secret_of ?w3 = Some secret"
    using assms by (simp add: secret_of_Date_now generateUniqueId_frame)
  have "snd (generateQrToken_try w b v) = snd (Date_now ?w3)
      \<and> \<not> isl (fst (generateQrToken_try w b v))"
    using s3 by (simp add: generateQrToken_try_def split_beta Let_def jwt_sign_qr [OF ne])
  then have "snd (generateQrToken w b v) = snd (Date_now ?w3)"
    by (auto simp: generateQrToken_def split: prod.splits sum.splits)
  then show ?thesis by (simp add: Date_now_frame generateUniqueId_frame)
qed

lemma issued_window:
  "claim (issued_token w secret b v) ''expiresAt'' = Some (JNum x) \<Longrightarrow>
   claim (issued_token w secret b v) ''issuedAt'' = Some (JNum i) \<Longrightarrow>
     x - i = 30000 - (clock_after 2 w - clock_after 1 w) \<and> x - i \<le> 30000"
  using clock_after_mono [of 1 w] by (simp add: claim_issued eval_nat_numeral)

section \<open>Configuration\<close>

text \<open>
  Claim C5. When the signing secret is absent (\<open>JWT_SECRET\<close> unset or empty), both
  minting and verification fail with an error whatever their input: \<open>generateQrToken\<close>
  throws \<open>Failed to generate QR token\<close> and \<open>verifyToken\<close> throws
  \<open>Token verification failed\<close>; neither returns a token or claims.
\<close>

theorem missing_secret_fails_fast:
  assumes "env_JWT_SECRET w = None \<or> env_JWT_SECRET w = Some []"
  shows "fst (generateQrToken w businessId stampsValue) = Inl (Error ''Failed to generate QR token'')
       \<and> fst (verifyToken w tok) = Inl (Error ''Token verification failed'')"
proof -
  have "secret_of w = None"
    using assms by (auto simp: secret_of_def)
  then show ?thesis
    by (simp add: generateQrToken_failed verifyToken_no_secret)
qed

theorem missing_secret_fails_fast_witness:
  "env_JWT_SECRET w_unset = None
   \<and> fst (generateQrToken w_unset ''biz_1'' 3) = Inl (Error ''Failed to generate QR token'')
   \<and> fst (verifyToken w_unset tok_ex) = Inl (Error ''Token verification failed'')
   \<and> env_JWT_SECRET (w_unset\<lparr>env_JWT_SECRET := Some []\<rparr>) = Some []
   \<and> fst (generateQrToken (w_unset\<lparr>env_JWT_SECRET := Some []\<rparr>) ''biz_1'' 3)
       = Inl (Error ''Failed to generate QR token'')
   \<and> fst (verifyToken (w_unset\<lparr>env_JWT_SECRET := Some []\<rparr>) tok_ex)
       = Inl (Error ''Token verification failed'')"
  using missing_secret_fails_fast [of w_unset "''biz_1''" 3 tok_ex]
    missing_secret_fails_fast [of "w_unset\<lparr>env_JWT_SECRET := Some []\<rparr>" "''biz_1''" 3 tok_ex]
  by (simp add: w_unset_def)

section \<open>Issuing and decoding\<close>

text \<open>
  Claim C2. Issue-then-decode round trip: decoding a freshly issued token returns the
  claims that were issued, and the claim asks for \<open>expiresAt - issuedAt\<close> to be
  exactly 30 seconds. \<open>generateQrToken\<close> reads the clock once for \<open>expiresAt\<close> and
  once more for \<open>issuedAt\<close>. Evaluated in a state where one millisecond passes between
  the two readings, \<open>generateQrToken('biz_1', 3)\<close> followed at once by \<open>verifyToken\<close>
  returns the business and the stamp count that were passed in, but an \<open>issuedAt\<close> of
  1730000000001 and an \<open>expiresAt\<close> of 1730000030000: a window of 29999 milliseconds.
  (Lemma \<open>issue_then_verify\<close> is the round trip for every input, lemma
  \<open>issued_window\<close> the window in general: 30000 minus the time between the readings.)
\<close>

theorem issue_decode_window_one_tick_short:
  "fst (generateQrToken w_ex ''biz_1'' 3) = Inr tok_ex
   \<and> fst (verifyToken (snd (generateQrToken w_ex ''biz_1'' 3)) tok_ex) = Inr claims_ex
   \<and> get_prop claims_ex ''businessId'' = Some (JStr ''biz_1'')
   \<and> get_prop claims_ex ''stampsValue'' = Some (JNum 3)
   \<and> get_prop claims_ex ''issuedAt'' = Some (JNum 1730000000001)
   \<and> get_prop claims_ex ''expiresAt'' = Some (JNum 1730000030000)
   \<and> (1730000030000 :: int) - 1730000000001 = 29999"
  by (simp add: eval_token_defs example_defs)

section \<open>Decoding\<close>

text \<open>
  The function \<open>verifyToken\<close> does not fail with \<open>Token has expired\<close> exactly when
  the current time exceeds the embedded expiry: a token whose \<open>exp\<close> lies in the past
  and whose signature was made with another key fails with \<open>Invalid token\<close>, since
  the signature is checked before the expiry.
\<close>

theorem expired_forgery_is_invalid:
  "secret_of w_late = Some ''k''
   \<and> claim tok_forged ''exp'' = Some (JNum 1730000030)
   \<and> 1730000030 < clock_ms w_late div 1000
   \<and> fst (verifyToken w_late tok_forged) = Inl (Error ''Invalid token'')"
  by (simp add: eval_token_defs example_defs claim_def jwt_decode_def)

text \<open>
  Claim C6, amended. With the secret configured, for every token string: decoding fails
  with \<open>Invalid token\<close> when the string is not a three-part token, when the signature
  is missing or does not verify under the secret, or when the algorithm is not an HMAC
  one. For a token whose signature verifies and that carries no \<open>nbf\<close>, decoding fails
  with \<open>Token has expired\<close> exactly when the current time in whole seconds has reached
  the embedded \<open>exp\<close> (\<open>exp \<le> now\<close>), and returns the payload otherwise; that error
  is thrown for no other token. A successful decode returns exactly the payload the
  signature was computed over, so a token whose payload or signature was altered never
  decodes to altered claims.
\<close>

theorem verifyToken_outcomes:
  assumes "secret_of w = Some secret"
  shows "(\<forall>s. tok = Malformed s \<longrightarrow> fst (verifyToken w tok) = Inl (Error ''Invalid token''))
       \<and> (\<forall>alg p sg. tok = Compact alg p sg \<and> (sg \<noteq> Hmac alg secret p \<or> alg \<notin> set HS_ALGS)
             \<longrightarrow> fst (verifyToken w tok) = Inl (Error ''Invalid token''))
       \<and> (\<forall>alg p e. tok = Compact alg p (Hmac alg secret p) \<and> alg \<in> set HS_ALGS
                      \<and> get_prop p ''nbf'' = None \<and> get_prop p ''exp'' = Some (JNum e)
             \<longrightarrow> fst (verifyToken w tok) =
                   (if e \<le> clock_ms w div 1000 then Inl (Error ''Token has expired'') else Inr p))
       \<and> (\<forall>alg p q. tok = Compact alg p (Hmac alg secret p) \<and> alg \<in> set HS_ALGS
                      \<and> get_prop p ''nbf'' = None \<and> get_prop p ''exp'' = Some (JFrac q)
             \<longrightarrow> fst (verifyToken w tok) =
                   (if q \<le> of_int (clock_ms w div 1000) then Inl (Error ''Token has expired'')
                    else Inr p))
       \<and> (fst (verifyToken w tok) = Inl (Error ''Token has expired'')
             \<longrightarrow> (\<exists>alg p v. tok = Compact alg p (Hmac alg secret p) \<and> get_prop p ''exp'' = Some v
                      \<and> ((\<exists>e. v = JNum e \<and> e \<le> clock_ms w div 1000)
                         \<or> (\<exists>q. v = JFrac q \<and> q \<le> of_int (clock_ms w div 1000))
                         \<or> v = JInf False)))
       \<and> (\<forall>claims. fst (verifyToken w tok) = Inr claims
             \<longrightarrow> (\<exists>alg. tok = Compact alg claims (Hmac alg secret claims)))"
proof -
  note v = verifyToken_secret(1) [OF assms]
  have a: "\<forall>s. tok = Malformed s \<longrightarrow> fst (verifyToken w tok) = Inl (Error ''Invalid token'')"
    by (auto simp: v jwt_verify_at_def)
  have b: "\<forall>alg p sg. tok = Compact alg p sg \<and> (sg \<noteq> Hmac alg secret p \<or> alg \<notin> set HS_ALGS)
             \<longrightarrow> fst (verifyToken w tok) = Inl (Error ''Invalid token'')"
    by (auto simp: v jwt_verify_at_def)
  have c: "\<forall>alg p e. tok = Compact alg p (Hmac alg secret p) \<and> alg \<in> set HS_ALGS
                      \<and> get_prop p ''nbf'' = None \<and> get_prop p ''exp'' = Some (JNum e)
             \<longrightarrow> fst (verifyToken w tok) =
                   (if e \<le> clock_ms w div 1000 then Inl (Error ''Token has expired'') else Inr p)"
    by (auto simp: v jwt_verify_at_def)
  have c': "\<forall>alg p q. tok = Compact alg p (Hmac alg secret p) \<and> alg \<in> set HS_ALGS
                      \<and> get_prop p ''nbf'' = None \<and> get_prop p ''exp'' = Some (JFrac q)
             \<longrightarrow> fst (verifyToken w tok) =
                   (if q \<le> of_int (clock_ms w div 1000) then Inl (Error ''Token has expired'')
                    else Inr p)"
    by (auto simp: v jwt_verify_at_def)
  have d: "fst (verifyToken w tok) = Inl (Error ''Token has expired'')
             \<longrightarrow> (\<exists>alg p v. tok = Compact alg p (Hmac alg secret p) \<and> get_prop p ''exp'' = Some v
                      \<and> ((\<exists>e. v = JNum e \<and> e \<le> clock_ms w div 1000)
                         \<or> (\<exists>q. v = JFrac q \<and> q \<le> of_int (clock_ms w div 1000))
                         \<or> v = JInf False))"
  proof
    assume x: "fst (verifyToken w tok) = Inl (Error ''Token has expired'')"
    then obtain m where "jwt_verify_at tok secret (clock_ms w div 1000) = Inl (TokenExpiredError m)"
      unfolding v
      by (cases "jwt_verify_at tok secret (clock_ms w div 1000)")
         (auto split: if_splits elim: instanceof_TokenExpiredError.elims)
    then show "\<exists>alg p v. tok = Compact alg p (Hmac alg secret p) \<and> get_prop p ''exp'' = Some v
                      \<and> ((\<exists>e. v = JNum e \<and> e \<le> clock_ms w div 1000)
                         \<or> (\<exists>q. v = JFrac q \<and> q \<le> of_int (clock_ms w div 1000))
                         \<or> v = JInf False)"
      by (rule jwt_verify_at_expired)
  qed
  have e: "\<forall>claims. fst (verifyToken w tok) = Inr claims
             \<longrightarrow> (\<exists>alg. tok = Compact alg claims (Hmac alg secret claims))"
    using verifyToken_Inr assms by fastforce
  show ?thesis using a b c c' d e by blast
qed

theorem verifyToken_outcomes_witness:
  "secret_of w_late = Some ''k''
   \<and> fst (verifyToken w_late (Malformed ''not.a.jwt!'')) = Inl (Error ''Invalid token'')
   \<and> fst (verifyToken w_late tok_forged) = Inl (Error ''Invalid token'')
   \<and> fst (verifyToken w_late tok_ex) = Inl (Error ''Token has expired'')
   \<and> fst (verifyToken w_soon tok_ex) = Inr claims_ex"
proof -
  have s: "secret_of w_late = Some ''k''" "secret_of w_soon = Some ''k''"
    by (simp_all add: secret_of_def example_defs)
  note late = verifyToken_outcomes [OF s(1)]
  note soon = verifyToken_outcomes [OF s(2), of tok_ex]
  have 1: "fst (verifyToken w_late (Malformed ''not.a.jwt!'')) = Inl (Error ''Invalid token'')"
    using late [of "Malformed ''not.a.jwt!''"] by blast
  have 2: "fst (verifyToken w_late tok_forged) = Inl (Error ''Invalid token'')"
    using late [of tok_forged] by (simp add: example_defs)
  have 3: "fst (verifyToken w_late tok_ex) = Inl (Error ''Token has expired'')"
    using late [of tok_ex] by (simp add: example_defs HS_ALGS_def)
  have 4: "fst (verifyToken w_soon tok_ex) = Inr claims_ex"
    using soon by (simp add: example_defs HS_ALGS_def)
  show ?thesis using s 1 2 3 4 by simp
qed



section \<open>Minting\<close>

text \<open>
  Two calls of \<open>generateQrToken\<close> with the same arguments under the same secret do
  not return the same token: the second call of the same process draws a new identifier
  and reads a later clock.
\<close>

theorem generateQrToken_twice_differs:
  "env_JWT_SECRET (snd (generateQrToken w_ex ''biz_1'' 3)) = env_JWT_SECRET w_ex
   \<and> fst (generateQrToken (snd (generateQrToken w_ex ''biz_1'' 3)) ''biz_1'' 3)
       \<noteq> fst (generateQrToken w_ex ''biz_1'' 3)"
  by (simp add: eval_token_defs example_defs)

text \<open>
  Claim C7, amended. The token \<open>generateQrToken\<close> returns is a function of its
  arguments, the secret, the four clock readings it makes and the random draw of the
  identifier: two calls that agree on these return the same result. A successful call
  leaves the environment and the console untouched; what it changes is the position of
  the clock and of the random source.
\<close>

theorem generateQrToken_determined:
  assumes "env_JWT_SECRET w = env_JWT_SECRET w'"
    and "clock_ms w = clock_ms w'"
    and "take 3 (clock_ticks w) = take 3 (clock_ticks w')"
    and "take 1 (random_pending w) = take 1 (random_pending w')"
  shows "fst (generateQrToken w businessId stampsValue) = fst (generateQrToken w' businessId stampsValue)
       \<and> (\<not> isl (fst (generateQrToken w businessId stampsValue)) \<longrightarrow>
            env_JWT_SECRET (snd (generateQrToken w businessId stampsValue)) = env_JWT_SECRET w
          \<and> console_log (snd (generateQrToken w businessId stampsValue)) = console_log w)"
proof -
  have s: "secret_of w = secret_of w'" using assms(1) by (simp add: secret_of_def)
  have id: "fst (generateUniqueId w) = fst (generateUniqueId w')"
    using assms(2) random_fst_take [OF assms(4)] by (simp add: generateUniqueId_fst)
  have c: "clock_after 1 w = clock_after 1 w'" "clock_after 2 w = clock_after 2 w'"
          "clock_after 3 w = clock_after 3 w'"
    using clock_after_le [OF _ assms(2) assms(3), of 1] clock_after_le [OF _ assms(2) assms(3), of 2]
      clock_after_le [OF _ assms(2) assms(3), of 3]
    by linarith+
  show ?thesis
  proof (cases "secret_of w")
    case None
    then show ?thesis using s by (simp add: generateQrToken_failed)
  next
    case (Some secret)
    then have "secret_of w' = Some secret" using s by simp
    then show ?thesis
      using Some id c generateQrToken_success_frame [OF Some]
      by (simp add: generateQrToken_issued issued_token_def)
  qed
qed

theorem generateQrToken_determined_witness:
  "env_JWT_SECRET w_ex = env_JWT_SECRET (w_ex\<lparr>console_log := [''earlier line'']\<rparr>)
   \<and> fst (generateQrToken w_ex ''biz_1'' 3)
       = fst (generateQrToken (w_ex\<lparr>console_log := [''earlier line'']\<rparr>) ''biz_1'' 3)
   \<and> console_log (snd (generateQrToken w_ex ''biz_1'' 3)) = console_log w_ex"
  using generateQrToken_determined [of w_ex "w_ex\<lparr>console_log := [''earlier line'']\<rparr>" "''biz_1''" 3] generateQrToken_ex
  by simp

section \<open>Validation of the stamp count\<close>

text \<open>
  \<open>qrGenerationValidation\<close> does not reject every request whose \<open>stampsValue\<close> is
  absent or outside \<open>[1,10]\<close>: the chain is \<open>optional()\<close>, so a request without the
  field passes, and the validator runs on the elements of an array, so the empty array
  passes. \<open>generateQrToken\<close> has no range check of its own: it mints a token for a
  stamp count of 11.
\<close>

theorem absent_stampsValue_passes:
  "qrGenerationValidation \<lparr>body = JObj [(''note'', JStr ''no stamps value'')]\<rparr> = Next
   \<and> qrGenerationValidation \<lparr>body = JObj [(''stampsValue'', JArr [])]\<rparr> = Next
   \<and> \<not> isl (fst (generateQrToken w_ex ''biz_1'' 11))"
  using generateQrToken_issued [of w_ex "''k''" "''biz_1''" 11]
  by (simp add: qrGenerationValidation_def handleValidationErrors_def w_ex_def secret_of_def)

text \<open>
  Claim C8, amended. The chain \<open>qrGenerationValidation\<close> calls the next handler
  exactly when the body has no \<open>stampsValue\<close>, or \<open>stampsValue\<close> reads as an integer
  from 1 to 10 (a number, or a string that is an optionally signed run of decimal
  digits; not a string with blanks, a fraction or an exponent), or is an array all of
  whose elements do, the empty array included. Every other request is answered with
  status 400 and \<open>Validation failed\<close>, or, when a value cannot be converted to a
  string, ends in the error handler. The source installs the chain on no route, so
  this says nothing about which requests reach \<open>generateQrToken\<close>.
\<close>

theorem qrGenerationValidation_accepts:
  "(qrGenerationValidation req = Next) =
     (case get_prop (body req) ''stampsValue'' of
        None \<Rightarrow> True
      | Some (JArr xs) \<Rightarrow> list_all accepted xs
      | Some v \<Rightarrow> accepted v)
   \<and> (\<forall>n. get_prop (body req) ''stampsValue'' = Some (JNum n)
         \<longrightarrow> (qrGenerationValidation req = Next) = (1 \<le> n \<and> n \<le> 10))
   \<and> (qrGenerationValidation req = Next
      \<or> (\<exists>details. qrGenerationValidation req =
            Respond 400 (JObj [(''success'', JBool False), (''error'', JStr ''Validation failed''),
                               (''details'', JArr details)]))
      \<or> qrGenerationValidation req =
            NextError (TypeError ''Cannot convert object to primitive value''))"
proof -
  have iff: "(qrGenerationValidation req = Next) =
     (case get_prop (body req) ''stampsValue'' of
        None \<Rightarrow> True
      | Some (JArr xs) \<Rightarrow> list_all accepted xs
      | Some v \<Rightarrow> accepted v)"
  proof (cases "get_prop (body req) ''stampsValue''")
    case None
    then show ?thesis by (simp add: qrGenerationValidation_def handleValidationErrors_def)
  next
    case (Some v)
    have n: "(qrGenerationValidation req = Next) =
            (refused (case v of JArr xs \<Rightarrow> xs | _ \<Rightarrow> [v]) 1 10 = Inr [])"
      using Some
      by (auto simp: qrGenerationValidation_def handleValidationErrors_Next split: sum.splits)
    show ?thesis
      unfolding n refused_accepted Some by (cases v) simp_all
  qed
  have num: "\<forall>n. get_prop (body req) ''stampsValue'' = Some (JNum n)
         \<longrightarrow> (qrGenerationValidation req = Next) = (1 \<le> n \<and> n \<le> 10)"
    unfolding iff by (simp add: accepted_def)
  have out: "qrGenerationValidation req = Next
      \<or> (\<exists>details. qrGenerationValidation req =
            Respond 400 (JObj [(''success'', JBool False), (''error'', JStr ''Validation failed''),
                               (''details'', JArr details)]))
      \<or> qrGenerationValidation req =
            NextError (TypeError ''Cannot convert object to primitive value'')"
    by (auto simp: qrGenerationValidation_def handleValidationErrors_def
        split: option.splits sum.splits dest: refused_Inl)
  show ?thesis using iff num out by blast
qed

theorem qrGenerationValidation_accepts_witness:
  "qrGenerationValidation (req_stamps (JNum 1)) = Next
   \<and> qrGenerationValidation (req_stamps (JNum 10)) = Next
   \<and> qrGenerationValidation (req_stamps (JNum 0)) \<noteq> Next
   \<and> qrGenerationValidation (req_stamps (JNum 11)) \<noteq> Next
   \<and> qrGenerationValidation (req_stamps (JStr ''07'')) = Next
   \<and> qrGenerationValidation (req_stamps (JStr '' 7'')) \<noteq> Next
   \<and> qrGenerationValidation (req_stamps (JStr ''7.0'')) \<noteq> Next
   \<and> qrGenerationValidation (req_stamps (JFrac (11 / 2))) \<noteq> Next
   \<and> qrGenerationValidation (req_stamps JNull) \<noteq> Next
   \<and> qrGenerationValidation (req_stamps (JArr [])) = Next
   \<and> qrGenerationValidation (req_stamps (JArr [JNum 5])) = Next
   \<and> qrGenerationValidation (req_stamps (JArr [JNum 5, JNum 11])) =
        Respond 400
          (JObj [(''success'', JBool False), (''error'', JStr ''Validation failed''),
                 (''details'',
                  JArr [JObj [(''field'', JStr ''stampsValue''),
                              (''message'', JStr ''Stamps value must be between 1 and 10''),
                              (''value'', JNum 11)]])])"
proof -
  have lit: "parse_int ''07'' = Some 7" "parse_int '' 7'' = None" "parse_int ''7.0'' = None"
    by (simp_all add: parse_int_def is_digit_def digits_val_def digit_val_def)
  have 1: "qrGenerationValidation (req_stamps (JNum 1)) = Next"
    using qrGenerationValidation_accepts [of "req_stamps (JNum 1)"] by (simp add: req_stamps_def accepted_def)
  have 2: "qrGenerationValidation (req_stamps (JNum 10)) = Next"
    using qrGenerationValidation_accepts [of "req_stamps (JNum 10)"] by (simp add: req_stamps_def accepted_def)
  have 3: "qrGenerationValidation (req_stamps (JNum 0)) \<noteq> Next"
    using qrGenerationValidation_accepts [of "req_stamps (JNum 0)"] by (simp add: req_stamps_def accepted_def)
  have 4: "qrGenerationValidation (req_stamps (JNum 11)) \<noteq> Next"
    using qrGenerationValidation_accepts [of "req_stamps (JNum 11)"] by (simp add: req_stamps_def accepted_def)
  have 5: "qrGenerationValidation (req_stamps (JStr ''07'')) = Next"
    using qrGenerationValidation_accepts [of "req_stamps (JStr ''07'')"]
    by (simp add: req_stamps_def accepted_def lit)
  have 6: "qrGenerationValidation (req_stamps (JStr '' 7'')) \<noteq> Next"
    using qrGenerationValidation_accepts [of "req_stamps (JStr '' 7'')"]
    by (simp add: req_stamps_def accepted_def lit)
  have 7: "qrGenerationValidation (req_stamps (JStr ''7.0'')) \<noteq> Next"
    using qrGenerationValidation_accepts [of "req_stamps (JStr ''7.0'')"]
    by (simp add: req_stamps_def accepted_def lit)
  have half: "\<lfloor>11 / 2 :: rat\<rfloor> = 5"
    by (simp add: floor_eq_iff)
  have 8: "qrGenerationValidation (req_stamps (JFrac (11 / 2))) \<noteq> Next"
    using qrGenerationValidation_accepts [of "req_stamps (JFrac (11 / 2))"]
    by (simp add: req_stamps_def accepted_def half)
  have 9: "qrGenerationValidation (req_stamps JNull) \<noteq> Next"
    using qrGenerationValidation_accepts [of "req_stamps JNull"]
    by (simp add: req_stamps_def accepted_def)
  have 10: "qrGenerationValidation (req_stamps (JArr [])) = Next"
    using qrGenerationValidation_accepts [of "req_stamps (JArr [])"] by (simp add: req_stamps_def accepted_def)
  have 11: "qrGenerationValidation (req_stamps (JArr [JNum 5])) = Next"
    using qrGenerationValidation_accepts [of "req_stamps (JArr [JNum 5])"]
    by (simp add: req_stamps_def accepted_def)
  have 12: "qrGenerationValidation (req_stamps (JArr [JNum 5, JNum 11])) =
        Respond 400
          (JObj [(''success'', JBool False), (''error'', JStr ''Validation failed''),
                 (''details'',
                  JArr [JObj [(''field'', JStr ''stampsValue''),
                              (''message'', JStr ''Stamps value must be between 1 and 10''),
                              (''value'', JNum 11)]])])"
    by (simp add: qrGenerationValidation_def handleValidationErrors_def formattedError_def
        req_stamps_def)
  show ?thesis using 1 2 3 4 5 6 7 8 9 10 11 12 by simp
qed

section \<open>The redemption ledger\<close>

text \<open>
  A second redemption of a consumed token does not always fail with
  \<open>AlreadyRedeemed\<close>: thirty-one seconds after the issue it fails with
  \<open>ExpiredToken\<close>, since the expiry checks come before the insert.
\<close>

theorem replay_after_expiry_is_expired:
  "fst (redeem NoFault (w_soon, d_ex) tok_ex ''cust_9'') = Inr (''m2r1bz7k-4fzyo82mvyr'', row_ex)
   \<and> fst (redeem NoFault (w_late, snd (snd (redeem NoFault (w_soon, d_ex) tok_ex ''cust_9'')))
             tok_ex ''cust_9'') = Inl ExpiredToken
   \<and> ExpiredToken \<noteq> AlreadyRedeemed"
  by (simp add: redeem_ex_first redeem_ex_late)

text \<open>
  Claim C1, amended. For every issued token, redeemed for the first time within its
  validity window by an existing customer while the store works, the call succeeds and
  creates a record keyed by the token's \<open>qrId\<close>, and the customer's \<open>totalStamps\<close>
  grows by \<open>stampsValue\<close> (one more visit, \<open>lastVisit = now\<close>). Every later
  redemption of the same token, in any state whose ledger holds that record, fails and
  changes nothing; with the store working it fails with \<open>AlreadyRedeemed\<close> while the
  token is within its validity window and with \<open>ExpiredToken\<close> afterwards. So the
  balance reflects exactly one increment.
\<close>

theorem redeem_at_most_once:
  assumes issued: "fst (generateQrToken w0 businessId stampsValue) = Inr tok"
    and qrId: "claim tok ''qrId'' = Some (JStr qrId)"
    and secret: "secret_of w = secret_of w0"
    and ttl: "within_ttl w tok"
    and fresh: "stamp_transactions d qrId = None"
    and customer: "customers d customerId = Some cu"
  shows "fst (redeem NoFault (w, d) tok customerId) =
           Inr (qrId, \<lparr>st_createdAt = clock_after 1 w, st_stampsAwarded = stampsValue,
                       st_source = ''qr_scan'', st_notes = None,
                       st_customerId = customerId, st_businessId = businessId\<rparr>)
       \<and> snd (snd (redeem NoFault (w, d) tok customerId)) =
           d\<lparr>stamp_transactions := (stamp_transactions d)(qrId \<mapsto>
                \<lparr>st_createdAt = clock_after 1 w, st_stampsAwarded = stampsValue,
                 st_source = ''qr_scan'', st_notes = None,
                 st_customerId = customerId, st_businessId = businessId\<rparr>),
             customers := (customers d)(customerId \<mapsto>
                cu\<lparr>cu_totalStamps := cu_totalStamps cu + stampsValue,
                   cu_totalVisits := cu_totalVisits cu + 1,
                   cu_lastVisit := Some (clock_after 1 w)\<rparr>)\<rparr>
       \<and> (\<forall>fault w2 d2 c2. stamp_transactions d2 qrId \<noteq> None \<longrightarrow>
             isl (fst (redeem fault (w2, d2) tok c2))
           \<and> snd (snd (redeem fault (w2, d2) tok c2)) = d2)
       \<and> (\<forall>w2 d2 c2. stamp_transactions d2 qrId \<noteq> None \<and> secret_of w2 = secret_of w0 \<longrightarrow>
             fst (redeem NoFault (w2, d2) tok c2) =
               Inl (if within_ttl w2 tok then AlreadyRedeemed else ExpiredToken))"
proof -
  from generateQrToken_Inr [OF issued] obtain sk where
    sk: "secret_of w0 = Some sk" and tok: "tok = issued_token w0 sk businessId stampsValue"
    by blast
  have q: "qrId = fst (generateUniqueId w0)"
    using qrId by (simp add: tok claim_issued)
  have sw: "secret_of w = Some sk" using secret sk by simp
  let ?row = "\<lparr>st_createdAt = clock_after 1 w, st_stampsAwarded = stampsValue,
               st_source = ''qr_scan'', st_notes = None,
               st_customerId = customerId, st_businessId = businessId\<rparr>"
  have live: "\<not> (clock_after 3 w0 div 1000 + 30 \<le> clock_ms w div 1000
                \<or> clock_after 1 w0 + 30000 < clock_after 1 w)"
    using ttl by (auto simp: tok within_ttl_issued)
  obtain d1 where steps: "redeem_steps NoFault qrId ?row customerId stampsValue (clock_after 1 w) d = Inr d1"
    using redeem_steps_fresh [OF fresh customer] by blast
  have first: "fst (redeem NoFault (w, d) tok customerId) = Inr (qrId, ?row)"
    unfolding tok redeem_issued [OF sw] using live steps by (simp add: q)
  obtain res w2 d2 where r: "redeem NoFault (w, d) tok customerId = (res, w2, d2)"
    by (cases "redeem NoFault (w, d) tok customerId") auto
  have res: "res = Inr (qrId, ?row)" using first r by simp
  have db: "d2 = d\<lparr>stamp_transactions := (stamp_transactions d)(qrId \<mapsto> ?row),
             customers := (customers d)(customerId \<mapsto>
                cu\<lparr>cu_totalStamps := cu_totalStamps cu + stampsValue,
                   cu_totalVisits := cu_totalVisits cu + 1,
                   cu_lastVisit := Some (clock_after 1 w)\<rparr>)\<rparr>"
    using redeem_result [OF r] res customer by auto
  have later: "\<forall>fault w2 d2 c2. stamp_transactions d2 qrId \<noteq> None \<longrightarrow>
             isl (fst (redeem fault (w2, d2) tok c2))
           \<and> snd (snd (redeem fault (w2, d2) tok c2)) = d2"
    using redeem_consumed [OF qrId] by blast
  have replay: "\<forall>w2 d2 c2. stamp_transactions d2 qrId \<noteq> None \<and> secret_of w2 = secret_of w0 \<longrightarrow>
             fst (redeem NoFault (w2, d2) tok c2) =
               Inl (if within_ttl w2 tok then AlreadyRedeemed else ExpiredToken)"
  proof (intro allI impI)
    fix w2 :: world and d2 :: database and c2 :: string
    assume a: "stamp_transactions d2 qrId \<noteq> None \<and> secret_of w2 = secret_of w0"
    then have s2: "secret_of w2 = Some sk" using sk by simp
    have dup: "\<And>row now. redeem_steps NoFault (fst (generateUniqueId w0)) row c2 stampsValue now d2 = Inl DuplicateKey"
      using a redeem_steps_duplicate q by simp
    show "fst (redeem NoFault (w2, d2) tok c2) =
               Inl (if within_ttl w2 tok then AlreadyRedeemed else ExpiredToken)"
      unfolding tok redeem_issued [OF s2] within_ttl_issued
      by (auto simp: dup)
  qed
  show ?thesis using first db r later replay by simp
qed

theorem redeem_at_most_once_witness:
  "fst (generateQrToken w_ex ''biz_1'' 3) = Inr tok_ex
   \<and> within_ttl w_soon tok_ex
   \<and> fst (redeem NoFault (w_soon, d_ex) tok_ex ''cust_9'') = Inr (''m2r1bz7k-4fzyo82mvyr'', row_ex)
   \<and> snd (snd (redeem NoFault (w_soon, d_ex) tok_ex ''cust_9'')) = d_redeemed
   \<and> fst (redeem NoFault (w_soon, d_redeemed) tok_ex ''cust_9'') = Inl AlreadyRedeemed
   \<and> snd (snd (redeem NoFault (w_soon, d_redeemed) tok_ex ''cust_9'')) = d_redeemed
   \<and> fst (redeem NoFault (w_late, d_redeemed) tok_ex ''cust_9'') = Inl ExpiredToken"
proof -
  have q: "claim tok_ex ''qrId'' = Some (JStr ''m2r1bz7k-4fzyo82mvyr'')"
    by (simp add: claim_def jwt_decode_def example_defs)
  have s: "secret_of w_soon = secret_of w_ex" "secret_of w_late = secret_of w_ex"
    by (simp_all add: secret_of_def example_defs)
  have fresh: "stamp_transactions d_ex ''m2r1bz7k-4fzyo82mvyr'' = None"
    by (simp add: example_defs)
  have cu: "customers d_ex ''cust_9'' =
              Some \<lparr>cu_totalStamps = 4, cu_totalRewards = 0, cu_totalVisits = 2,
                    cu_lastVisit = None, cu_businessId = ''biz_1''\<rparr>"
    by (simp add: example_defs)
  have held: "stamp_transactions d_redeemed ''m2r1bz7k-4fzyo82mvyr'' \<noteq> None"
    by (simp add: example_defs)
  have now: "clock_ms (snd (Date_now w_soon)) = 1730000005000"
    by (simp add: Date_now_def example_defs)
  note T = redeem_at_most_once [OF generateQrToken_ex q s(1) within_ttl_ex(1) fresh cu]
  have 1: "fst (redeem NoFault (w_soon, d_ex) tok_ex ''cust_9'') = Inr (''m2r1bz7k-4fzyo82mvyr'', row_ex)"
    using T [THEN conjunct1] by (simp add: now row_ex_def)
  have 2: "snd (snd (redeem NoFault (w_soon, d_ex) tok_ex ''cust_9'')) = d_redeemed"
    using T [THEN conjunct2, THEN conjunct1] by (simp add: Date_now_def example_defs)
  have 3: "snd (snd (redeem NoFault (w_soon, d_redeemed) tok_ex ''cust_9'')) = d_redeemed"
    using T [THEN conjunct2, THEN conjunct2, THEN conjunct1, rule_format, OF held] by simp
  have 4: "fst (redeem NoFault (w_soon, d_redeemed) tok_ex ''cust_9'') = Inl AlreadyRedeemed"
    using T [THEN conjunct2, THEN conjunct2, THEN conjunct2, rule_format, of d_redeemed w_soon]
      held s(1) within_ttl_ex(1) by simp
  have 5: "fst (redeem NoFault (w_late, d_redeemed) tok_ex ''cust_9'') = Inl ExpiredToken"
    using T [THEN conjunct2, THEN conjunct2, THEN conjunct2, rule_format, of d_redeemed w_late]
      held s(2) within_ttl_ex(2) by simp
  show ?thesis using generateQrToken_ex within_ttl_ex(1) 1 2 3 4 5 by simp
qed

text \<open>
  Claim C3. Expiry dominates replay: for every issued token, once the current time is
  past its \<open>expiresAt\<close>, redemption fails with \<open>ExpiredToken\<close> and changes nothing,
  whatever the ledger holds (so also when the token was already consumed), whoever the
  customer is and whether or not the store works: the expiry checks precede the insert
  that detects a replay.
\<close>

theorem expiry_dominates_replay:
  assumes issued: "fst (generateQrToken w0 businessId stampsValue) = Inr tok"
    and secret: "secret_of w = secret_of w0"
    and expiresAt: "claim tok ''expiresAt'' = Some (JNum expiresAt)"
    and elapsed: "expiresAt < clock_ms w"
  shows "fst (redeem fault (w, d) tok customerId) = Inl ExpiredToken
       \<and> snd (snd (redeem fault (w, d) tok customerId)) = d"
proof -
  from generateQrToken_Inr [OF issued] obtain sk where
    sk: "secret_of w0 = Some sk" and tok: "tok = issued_token w0 sk businessId stampsValue"
    by blast
  have sw: "secret_of w = Some sk" using secret sk by simp
  have x: "expiresAt = clock_after 1 w0 + 30000"
    using expiresAt by (simp add: tok claim_issued)
  have "clock_ms w \<le> clock_after 1 w" using clock_after_mono [of 0 w] by simp
  then have late: "clock_after 1 w0 + 30000 < clock_after 1 w" using elapsed x by simp
  have first: "fst (redeem fault (w, d) tok customerId) = Inl ExpiredToken"
    unfolding tok redeem_issued [OF sw] using late by simp
  obtain res w2 d2 where r: "redeem fault (w, d) tok customerId = (res, w2, d2)"
    by (cases "redeem fault (w, d) tok customerId") auto
  have "d2 = d" using redeem_result [OF r] first r by auto
  then show ?thesis using first r by simp
qed

theorem expiry_dominates_replay_witness:
  "fst (generateQrToken w_ex ''biz_1'' 3) = Inr tok_ex
   \<and> claim tok_ex ''expiresAt'' = Some (JNum 1730000030000)
   \<and> 1730000030000 < clock_ms w_late
   \<and> fst (redeem NoFault (w_late, d_redeemed) tok_ex ''cust_9'') = Inl ExpiredToken
   \<and> snd (snd (redeem NoFault (w_late, d_redeemed) tok_ex ''cust_9'')) = d_redeemed
   \<and> fst (redeem NoFault (w_late, d_ex) tok_ex ''cust_9'') = Inl ExpiredToken"
proof -
  have x: "claim tok_ex ''expiresAt'' = Some (JNum 1730000030000)"
    by (simp add: claim_def jwt_decode_def example_defs)
  have s: "secret_of w_late = secret_of w_ex"
    by (simp add: secret_of_def example_defs)
  have late: "1730000030000 < clock_ms w_late"
    by (simp add: example_defs)
  note T = expiry_dominates_replay [OF generateQrToken_ex s x late]
  show ?thesis
    using generateQrToken_ex x late T [of NoFault d_redeemed "''cust_9''"]
      T [of NoFault d_ex "''cust_9''"]
    by simp
qed

text \<open>
  Claim C4. Redemption is atomic: a call that fails with \<open>PersistenceError\<close> leaves
  the database as it was (no record, and \<open>totalStamps\<close>, \<open>totalVisits\<close> and
  \<open>lastVisit\<close> unchanged). For every call, either the database is unchanged, or the
  call succeeded and both the record was inserted and the balance updated.
\<close>

theorem redeem_atomic:
  "(fst (redeem fault (w, d) tok customerId) = Inl PersistenceError
      \<longrightarrow> snd (snd (redeem fault (w, d) tok customerId)) = d)
   \<and> (snd (snd (redeem fault (w, d) tok customerId)) = d
      \<or> (\<exists>qrId row cu.
            fst (redeem fault (w, d) tok customerId) = Inr (qrId, row)
          \<and> stamp_transactions d qrId = None
          \<and> customers d customerId = Some cu
          \<and> snd (snd (redeem fault (w, d) tok customerId)) =
              d\<lparr>stamp_transactions := (stamp_transactions d)(qrId \<mapsto> row),
                customers := (customers d)(customerId \<mapsto>
                   cu\<lparr>cu_totalStamps := cu_totalStamps cu + st_stampsAwarded row,
                      cu_totalVisits := cu_totalVisits cu + 1,
                      cu_lastVisit := Some (st_createdAt row)\<rparr>)\<rparr>))"
proof -
  obtain res w1 d1 where r: "redeem fault (w, d) tok customerId = (res, w1, d1)"
    by (cases "redeem fault (w, d) tok customerId") auto
  from redeem_result [OF r] show ?thesis unfolding r by auto
qed

theorem redeem_atomic_witness:
  "fst (redeem FailOnUpdate (w_soon, d_ex) tok_ex ''cust_9'') = Inl PersistenceError
   \<and> snd (snd (redeem FailOnUpdate (w_soon, d_ex) tok_ex ''cust_9'')) = d_ex"
  using redeem_atomic [of FailOnUpdate w_soon d_ex tok_ex "''cust_9''"] redeem_ex_fault
  by simp

section \<open>The status query\<close>

text \<open>
  Claim C9. \<open>checkStatus\<close> answers \<open>Redeemed\<close> exactly when a record with the
  given \<open>qrId\<close> exists and belongs to the asking business; when the record belongs to
  another business the query fails with \<open>NotAuthorized\<close>; and the database it returns
  is the one it was given.
\<close>

theorem checkStatus_redeemed_iff:
  "(fst (checkStatus d businessId qrId issuedAt now) = Inr Redeemed)
     = (\<exists>r. stamp_transactions d qrId = Some r \<and> st_businessId r = businessId)
   \<and> (\<forall>r. stamp_transactions d qrId = Some r \<and> st_businessId r \<noteq> businessId
         \<longrightarrow> fst (checkStatus d businessId qrId issuedAt now) = Inl NotAuthorized)
   \<and> snd (checkStatus d businessId qrId issuedAt now) = d"
  by (auto simp: checkStatus_def split: option.splits)

theorem checkStatus_redeemed_iff_witness:
  "stamp_transactions d_redeemed ''m2r1bz7k-4fzyo82mvyr'' = Some row_ex
   \<and> fst (checkStatus d_redeemed ''biz_1'' ''m2r1bz7k-4fzyo82mvyr'' None 1730000006000) = Inr Redeemed
   \<and> fst (checkStatus d_redeemed ''biz_2'' ''m2r1bz7k-4fzyo82mvyr'' None 1730000006000)
       = Inl NotAuthorized
   \<and> snd (checkStatus d_redeemed ''biz_2'' ''m2r1bz7k-4fzyo82mvyr'' None 1730000006000)
       = d_redeemed"
proof -
  have r: "stamp_transactions d_redeemed ''m2r1bz7k-4fzyo82mvyr'' = Some row_ex"
    by (simp add: example_defs)
  have b: "st_businessId row_ex = ''biz_1''" "st_businessId row_ex \<noteq> ''biz_2''"
    by (simp_all add: row_ex_def)
  show ?thesis
    using r b
      checkStatus_redeemed_iff [of d_redeemed "''biz_1''" "''m2r1bz7k-4fzyo82mvyr''" None 1730000006000]
      checkStatus_redeemed_iff [of d_redeemed "''biz_2''" "''m2r1bz7k-4fzyo82mvyr''" None 1730000006000]
    by simp
qed

section \<open>Expiry of a token without verification\<close>

lemma isTokenExpired_claim:
  "fst (isTokenExpired w tok) =
     (case claim tok ''exp'' of
        None \<Rightarrow> True
      | Some e \<Rightarrow>
          \<not> truthy e
          \<or> (case js_less e (clock_ms w div 1000) of Inl err \<Rightarrow> True | Inr b \<Rightarrow> b))"
proof (cases tok)
  case (Malformed s)
  then show ?thesis
    by (simp add: isTokenExpired_def isTokenExpired_try_def jwt_decode_def claim_def)
next
  case (Undecodable s)
  then show ?thesis
    by (simp add: isTokenExpired_def isTokenExpired_try_def jwt_decode_def claim_def)
next
  case (Compact alg d sg)
  show ?thesis
  proof (cases "get_prop d ''exp''")
    case None
    then show ?thesis using Compact
      by (simp add: isTokenExpired_def isTokenExpired_try_def jwt_decode_def claim_def falsy_def)
  next
    case (Some e)
    then have obj: "truthy d" by (cases d) auto
    show ?thesis using Compact Some obj
      by (simp add: isTokenExpired_def isTokenExpired_try_def jwt_decode_def claim_def
          falsy_def split_beta fst_Date_now Let_def split: sum.splits)
  qed
qed

text \<open>
  \<open>isTokenExpired\<close> does not return true exactly when \<open>exp\<close> is less than the
  current time: for a payload whose \<open>exp\<close> is an object with a property \<open>toString\<close>,
  the comparison \<open>decoded.exp < currentTime\<close> throws a \<open>TypeError\<close>, which the
  \<open>catch\<close> block turns into the answer true.
\<close>

theorem unconvertible_exp_is_expired:
  "claim (exp_only (JObj [(''toString'', JNum 1)])) ''exp'' = Some (JObj [(''toString'', JNum 1)])
   \<and> js_less (JObj [(''toString'', JNum 1)]) (clock_ms w_soon div 1000)
       = Inl (TypeError ''Cannot convert object to primitive value'')
   \<and> fst (isTokenExpired w_soon (exp_only (JObj [(''toString'', JNum 1)]))) = True"
  by (simp add: isTokenExpired_def isTokenExpired_try_def jwt_decode_def claim_def falsy_def
      js_less_def exp_only_def split_beta)

text \<open>
  Claim C10, amended. \<open>isTokenExpired\<close> returns a boolean for every token string:
  the exceptions of \<open>jwt.decode\<close> and of the comparison are caught. It returns true
  whenever the string does not decode to a payload, or the payload carries no \<open>exp\<close>
  or one that \<open>!decoded.exp\<close> takes for missing (\<open>0\<close>, the empty string, \<open>null\<close>,
  \<open>false\<close>). For a numeric \<open>exp\<close> other than 0 it returns true exactly when \<open>exp\<close>
  is strictly less than the current time in whole seconds; for any other \<open>exp\<close>,
  exactly when the number JavaScript converts it to is, or when that conversion throws.
  The clock is read once, and only when the comparison is reached.
\<close>

theorem isTokenExpired_total:
  "((\<forall>p. jwt_decode tok \<noteq> Inr (Some p)) \<longrightarrow> fst (isTokenExpired w tok) = True)
   \<and> (falsy (claim tok ''exp'') \<longrightarrow> fst (isTokenExpired w tok) = True)
   \<and> (\<forall>n. claim tok ''exp'' = Some (JNum n) \<and> n \<noteq> 0
         \<longrightarrow> fst (isTokenExpired w tok) = (n < clock_ms w div 1000))
   \<and> (\<forall>q. claim tok ''exp'' = Some (JFrac q) \<and> q \<noteq> 0
         \<longrightarrow> fst (isTokenExpired w tok) = (q < of_int (clock_ms w div 1000)))
   \<and> (\<forall>b. claim tok ''exp'' = Some (JInf b) \<longrightarrow> fst (isTokenExpired w tok) = (\<not> b))
   \<and> (\<forall>e. claim tok ''exp'' = Some e \<and> truthy e
         \<longrightarrow> fst (isTokenExpired w tok) =
               (case ToNumber e of
                  Inl err \<Rightarrow> True
                | Inr x \<Rightarrow> number_less x (Finite (of_int (clock_ms w div 1000)))))
   \<and> snd (isTokenExpired w tok) = (if falsy (claim tok ''exp'') then w else snd (Date_now w))"
proof -
  note r = isTokenExpired_claim [of w tok]
  have a: "(\<forall>p. jwt_decode tok \<noteq> Inr (Some p)) \<longrightarrow> fst (isTokenExpired w tok) = True"
    unfolding r by (auto simp: claim_def split: sum.splits option.splits)
  have b: "falsy (claim tok ''exp'') \<longrightarrow> fst (isTokenExpired w tok) = True"
    unfolding r by (auto simp: falsy_def split: option.splits)
  have c: "\<forall>n. claim tok ''exp'' = Some (JNum n) \<and> n \<noteq> 0
         \<longrightarrow> fst (isTokenExpired w tok) = (n < clock_ms w div 1000)"
    unfolding r by (auto simp: js_less_def)
  have d: "\<forall>q. claim tok ''exp'' = Some (JFrac q) \<and> q \<noteq> 0
         \<longrightarrow> fst (isTokenExpired w tok) = (q < of_int (clock_ms w div 1000))"
    unfolding r by (auto simp: js_less_def)
  have e: "\<forall>b. claim tok ''exp'' = Some (JInf b) \<longrightarrow> fst (isTokenExpired w tok) = (\<not> b)"
    unfolding r by (auto simp: js_less_def)
  have f: "\<forall>e. claim tok ''exp'' = Some e \<and> truthy e
         \<longrightarrow> fst (isTokenExpired w tok) =
               (case ToNumber e of
                  Inl err \<Rightarrow> True
                | Inr x \<Rightarrow> number_less x (Finite (of_int (clock_ms w div 1000))))"
    unfolding r by (auto simp: js_less_def split: sum.splits)
  have g: "snd (isTokenExpired w tok) = (if falsy (claim tok ''exp'') then w else snd (Date_now w))"
  proof (cases tok)
    case (Malformed s)
    then show ?thesis
      by (simp add: isTokenExpired_def isTokenExpired_try_def jwt_decode_def claim_def falsy_def)
  next
    case (Undecodable s)
    then show ?thesis
      by (simp add: isTokenExpired_def isTokenExpired_try_def jwt_decode_def claim_def falsy_def)
  next
    case (Compact alg p sg)
    show ?thesis
    proof (cases "get_prop p ''exp''")
      case None
      then show ?thesis using Compact
        by (simp add: isTokenExpired_def isTokenExpired_try_def jwt_decode_def claim_def falsy_def)
    next
      case (Some x)
      then have obj: "truthy p" by (cases p) auto
      show ?thesis using Compact Some obj
        by (simp add: isTokenExpired_def isTokenExpired_try_def jwt_decode_def claim_def
            falsy_def split_beta Let_def split: sum.splits)
    qed
  qed
  show ?thesis using a b c d e f g by blast
qed

theorem isTokenExpired_total_witness:
  "fst (isTokenExpired w_soon tok_ex) = False
   \<and> fst (isTokenExpired w_edge tok_ex) = False
   \<and> fst (isTokenExpired w_late tok_ex) = True
   \<and> fst (isTokenExpired w_edge (exp_only (JFrac (3460000061 / 2)))) = False
   \<and> fst (isTokenExpired w_soon (exp_only (JNum 0))) = True
   \<and> fst (isTokenExpired w_soon (exp_only (JStr '' 5 ''))) = True
   \<and> fst (isTokenExpired w_soon (exp_only (JStr ''1e3''))) = True
   \<and> fst (isTokenExpired w_soon (exp_only (JStr ''0x10''))) = True
   \<and> fst (isTokenExpired w_soon (exp_only (JStr ''soon''))) = False
   \<and> fst (isTokenExpired w_soon (exp_only (JArr [JNum 5]))) = True
   \<and> fst (isTokenExpired w_soon tok_not_json) = True
   \<and> fst (isTokenExpired w_soon (Malformed ''a.b.c'')) = True"
proof -
  have c: "claim tok_ex ''exp'' = Some (JNum 1730000030)" "\<And>v. claim (exp_only v) ''exp'' = Some v"
    by (simp_all add: claim_def jwt_decode_def exp_only_def tok_ex_def claims_ex_def)
  have t: "clock_ms w_soon div 1000 = 1730000005" "clock_ms w_edge div 1000 = 1730000030"
    "clock_ms w_late div 1000 = 1730000031"
    by (simp_all add: example_defs)
  have 1: "fst (isTokenExpired w_soon tok_ex) = False"
    using isTokenExpired_total [of tok_ex w_soon] by (simp add: c t)
  have 2: "fst (isTokenExpired w_edge tok_ex) = False"
    using isTokenExpired_total [of tok_ex w_edge] by (simp add: c t)
  have 3: "fst (isTokenExpired w_late tok_ex) = True"
    using isTokenExpired_total [of tok_ex w_late] by (simp add: c t)
  have 4: "fst (isTokenExpired w_edge (exp_only (JFrac (3460000061 / 2)))) = False"
    using isTokenExpired_total [of "exp_only (JFrac (3460000061 / 2))" w_edge] by (simp add: c t)
  have 5: "fst (isTokenExpired w_soon (exp_only (JNum 0))) = True"
    using isTokenExpired_total [of "exp_only (JNum 0)" w_soon] by (simp add: c falsy_def)
  have 6: "fst (isTokenExpired w_soon (exp_only (JStr '' 5 ''))) = True"
    using isTokenExpired_total [of "exp_only (JStr '' 5 '')" w_soon]
    by (simp add: c t StringToNumber_ex)
  have 7: "fst (isTokenExpired w_soon (exp_only (JStr ''1e3''))) = True"
    using isTokenExpired_total [of "exp_only (JStr ''1e3'')" w_soon]
    by (simp add: c t StringToNumber_ex)
  have 8: "fst (isTokenExpired w_soon (exp_only (JStr ''0x10''))) = True"
    using isTokenExpired_total [of "exp_only (JStr ''0x10'')" w_soon]
    by (simp add: c t StringToNumber_ex)
  have 9: "fst (isTokenExpired w_soon (exp_only (JStr ''soon''))) = False"
    using isTokenExpired_total [of "exp_only (JStr ''soon'')" w_soon]
    by (simp add: c t StringToNumber_ex)
  have 10: "fst (isTokenExpired w_soon (exp_only (JArr [JNum 5]))) = True"
    using isTokenExpired_total [of "exp_only (JArr [JNum 5])" w_soon] by (simp add: c t)
  have 11: "fst (isTokenExpired w_soon tok_not_json) = True"
    using isTokenExpired_total [of tok_not_json w_soon]
    by (simp add: jwt_decode_def tok_not_json_def)
  have 12: "fst (isTokenExpired w_soon (Malformed ''a.b.c'')) = True"
    using isTokenExpired_total [of "Malformed ''a.b.c''" w_soon] by (simp add: jwt_decode_def)
  show ?thesis using 1 2 3 4 5 6 7 8 9 10 11 12 by simp
qed

end
